theory Spec2Isabelle
  imports
    Complex_Main
    "HOL-Library.Multiset"
    "HOL-Library.Char_ord"
    "HOL-Library.List_Lexorder"
    "HOL-Library.Log_Nat"
begin

section \<open>Receivables and sales of the fish-pond backend\<close>

text \<open>
  The route handlers of the debts router (\<^verbatim>\<open>router.get('/')\<close>, \<^verbatim>\<open>router.get('/:id')\<close>,
  \<^verbatim>\<open>router.post('/:id/payments')\<close>, \<^verbatim>\<open>router.get('/:id/payments')\<close>) and of the
  transactions router (\<^verbatim>\<open>router.post('/')\<close>, \<^verbatim>\<open>router.put('/:id')\<close>,
  \<^verbatim>\<open>router.delete('/:id')\<close>) are embedded as functions over an explicit database
  state. Every handler runs behind \<^verbatim>\<open>authenticate\<close>; the functions below describe the
  handler body, so they take the authenticated \<^verbatim>\<open>req.user\<close> where the body reads it.
  The tables are those of \<^verbatim>\<open>createTables\<close> in the database module, with the columns
  the handlers read or write.

  Conventions of the embedding:
  \<^item> a table is the list of its rows in rowid order; SQLite keeps the primary key
    \<^verbatim>\<open>id\<close> unique, so a lookup or a join on it yields the first (only) match;
  \<^item> a nullable column is an \<open>option\<close>; \<^verbatim>\<open>DATE\<close> and \<^verbatim>\<open>DATETIME\<close> values are ISO
    text, which SQLite compares bytewise, so they are strings under the
    lexicographic order;
  \<^item> the schema sets no \<^verbatim>\<open>PRAGMA foreign_keys\<close>, so SQLite checks no foreign key;
  \<^item> a request field is typed as the column it feeds and is \<open>None\<close> when the key is
    missing from the JSON body (\<^verbatim>\<open>undefined\<close>); ids in the path are numbers;
  \<^item> money is \<open>int\<close>: JavaScript numbers and SQLite integers agree with this on
    integers below \<open>2^53\<close>;
  \<^item> a weight in a request body is the rational its JSON literal denotes; the handler
    reads the binary64 number nearest to it, and \<^verbatim>\<open>*\<close> rounds the exact product to
    binary64 again (round to nearest, ties to even). The exponent is not bounded:
    numbers beyond the range of binary64 (above about \<open>1.8e308\<close>, below about
    \<open>2.2e-308\<close>) are outside the model;
  \<^item> \<^verbatim>\<open>CURRENT_TIMESTAMP\<close> is the argument \<open>now\<close> of a handler that writes.
\<close>

subsection \<open>Tables\<close>

type_synonym date = string

record customer =
  c_id :: nat
  c_name :: string
  c_phone :: "string option"

record pond =
  po_id :: nat
  po_name :: string

record transaction_row =
  t_id :: nat
  t_date :: date
  t_pond_id :: "nat option"
  t_customer_id :: "nat option"
  t_weight_kg :: rat
  t_price_per_kg :: int
  t_total :: int
  t_payment_method :: "string option"
  t_payment_status :: string
  t_notes :: "string option"
  t_created_by :: "nat option"
  t_created_at :: date

record debt =
  d_id :: nat
  d_transaction_id :: "nat option"
  d_customer_id :: nat
  d_amount :: int
  d_paid_amount :: "int option"
  d_status :: string
  d_due_date :: "date option"
  d_notes :: "string option"
  d_created_at :: date
  d_updated_at :: date

record debt_payment =
  p_id :: nat
  p_debt_id :: nat
  p_payment_date :: date
  p_amount :: int
  p_payment_method :: "string option"
  p_notes :: "string option"
  p_created_at :: date

text \<open>
  The three \<open>seq_\<close> fields are the rows of \<^verbatim>\<open>sqlite_sequence\<close>: with
  \<^verbatim>\<open>AUTOINCREMENT\<close> a new rowid is one more than the largest the table ever held.
\<close>

record database =
  customers :: "customer list"
  ponds :: "pond list"
  transactions :: "transaction_row list"
  debts :: "debt list"
  debt_payments :: "debt_payment list"
  seq_transactions :: nat
  seq_debts :: nat
  seq_debt_payments :: nat

record user =
  u_id :: nat
  u_role :: string

datatype error = BadRequest | Forbidden | NotFound | ServerError

fun http_status :: "error \<Rightarrow> nat" where
  "http_status BadRequest = 400"
| "http_status Forbidden = 403"
| "http_status NotFound = 404"
| "http_status ServerError = 500"

subsection \<open>JavaScript and SQL primitives\<close>

text \<open>Truthiness of a text field: \<^verbatim>\<open>undefined\<close> and the empty string are falsy.\<close>

definition truthy_str :: "string option \<Rightarrow> bool" where
  "truthy_str v = (case v of None \<Rightarrow> False | Some s \<Rightarrow> s \<noteq> [])"

text \<open>Truthiness of a numeric field: \<^verbatim>\<open>undefined\<close> and \<^verbatim>\<open>0\<close> are falsy.\<close>

definition truthy_num :: "'a::zero option \<Rightarrow> bool" where
  "truthy_num v = (case v of None \<Rightarrow> False | Some n \<Rightarrow> n \<noteq> 0)"

text \<open>\<^verbatim>\<open>x || y\<close> on a number \<open>x\<close> and on an optional text \<open>x\<close>.\<close>

definition js_or_num :: "int \<Rightarrow> int \<Rightarrow> int" where
  "js_or_num x y = (if x = 0 then y else x)"

definition js_or_null :: "string option \<Rightarrow> string option" where
  "js_or_null v = (if truthy_str v then v else None)"

definition js_or_str :: "string option \<Rightarrow> string \<Rightarrow> string" where
  "js_or_str v dflt = (case v of None \<Rightarrow> dflt | Some s \<Rightarrow> if s = [] then dflt else s)"

text \<open>
  Rounding to binary64. \<open>exponent2 x\<close> is the exponent of the leading bit of a positive
  \<open>x\<close> (\<open>2 ^ e \<le> x < 2 ^ (e + 1)\<close>); the unit in the last place of a 53-bit significand
  is \<open>2 ^ (e - 52)\<close>; the number is rounded to the nearest multiple of that unit, a tie
  going to the even significand.
\<close>

definition round_half_even :: "rat \<Rightarrow> int" where
  "round_half_even m =
     (let f = \<lfloor>m\<rfloor>
      in if m - of_int f < 1 / 2 then f
         else if 1 / 2 < m - of_int f then f + 1
         else if even f then f else f + 1)"

definition exponent2 :: "rat \<Rightarrow> int" where
  "exponent2 x = (if 1 \<le> x then bitlen \<lfloor>x\<rfloor> - 1 else - bitlen (\<lceil>1 / x\<rceil> - 1))"

definition binary64 :: "rat \<Rightarrow> rat" where
  "binary64 x =
     (if x = 0 then 0
      else
        (let ulp = 2 powi (exponent2 \<bar>x\<bar> - 52)
         in sgn x * of_int (round_half_even (\<bar>x\<bar> / ulp)) * ulp))"

text \<open>\<^verbatim>\<open>x * y\<close> on two numbers.\<close>

definition js_times :: "rat \<Rightarrow> rat \<Rightarrow> rat" where
  "js_times x y = binary64 (x * y)"

text \<open>\<^verbatim>\<open>Math.round\<close>: the nearest integer, a half going up.\<close>

definition Math_round :: "rat \<Rightarrow> int" where
  "Math_round x = \<lfloor>x + 1 / 2\<rfloor>"

text \<open>
  \<^verbatim>\<open>ORDER BY key DESC\<close>: SQL fixes the order of rows with different keys only; the
  model keeps rows with equal keys in table order.
\<close>

fun insert_desc :: "('a \<Rightarrow> 'k::linorder) \<Rightarrow> 'a \<Rightarrow> 'a list \<Rightarrow> 'a list" where
  "insert_desc key x [] = [x]"
| "insert_desc key x (y # ys) =
     (if key y \<le> key x then x # y # ys else y # insert_desc key x ys)"

definition order_by_desc :: "('a \<Rightarrow> 'k::linorder) \<Rightarrow> 'a list \<Rightarrow> 'a list" where
  "order_by_desc key xs = foldr (insert_desc key) xs []"

text \<open>The next \<^verbatim>\<open>AUTOINCREMENT\<close> rowid, given the sequence value and the ids in the table.\<close>

definition next_rowid :: "nat \<Rightarrow> nat list \<Rightarrow> nat" where
  "next_rowid seq ids = Suc (fold max ids seq)"

text \<open>\<^verbatim>\<open>SELECT COALESCE(SUM(amount), 0) FROM debt_payments WHERE debt_id = ?\<close>\<close>

definition sum_payments :: "database \<Rightarrow> nat \<Rightarrow> int" where
  "sum_payments db i = sum_list (map p_amount (filter (\<lambda>p. p_debt_id p = i) (debt_payments db)))"

text \<open>\<^verbatim>\<open>SELECT * FROM debt_payments WHERE debt_id = ? ORDER BY payment_date DESC\<close>\<close>

definition select_payments :: "database \<Rightarrow> nat \<Rightarrow> debt_payment list" where
  "select_payments db i =
     order_by_desc p_payment_date (filter (\<lambda>p. p_debt_id p = i) (debt_payments db))"

text \<open>The columns a \<^verbatim>\<open>LEFT JOIN\<close> on a primary key adds: \<open>None\<close> (NULL) without a match.\<close>

definition join_customer :: "database \<Rightarrow> nat option \<Rightarrow> customer option" where
  "join_customer db k =
     (case k of None \<Rightarrow> None | Some i \<Rightarrow> find (\<lambda>c. c_id c = i) (customers db))"

definition join_pond :: "database \<Rightarrow> nat option \<Rightarrow> pond option" where
  "join_pond db k =
     (case k of None \<Rightarrow> None | Some i \<Rightarrow> find (\<lambda>p. po_id p = i) (ponds db))"

definition join_transaction :: "database \<Rightarrow> nat option \<Rightarrow> transaction_row option" where
  "join_transaction db k =
     (case k of None \<Rightarrow> None | Some i \<Rightarrow> find (\<lambda>t. t_id t = i) (transactions db))"

subsection \<open>Debts router: list\<close>

record debts_query =
  q_status :: "string option"
  q_customerId :: "nat option"

text \<open>
  A row of the response: the debt's own columns (after the object spread and its
  overrides), the joined columns, and the added \<^verbatim>\<open>remaining_amount\<close>.
\<close>

record debt_list_item =
  li_debt :: debt
  li_customer_name :: "string option"
  li_customer_phone :: "string option"
  li_transaction_date :: "date option"
  li_weight_kg :: "rat option"
  li_price_per_kg :: "int option"
  li_remaining_amount :: int

text \<open>
  The \<^verbatim>\<open>WHERE\<close> clause built from the query string. Query values are strings: an
  empty \<^verbatim>\<open>status\<close> is falsy and adds no condition, a \<^verbatim>\<open>customerId\<close> that is present
  (the digits of a number) is truthy whatever the number.
\<close>

definition debts_where :: "debts_query \<Rightarrow> debt \<Rightarrow> bool" where
  "debts_where q d =
     ((if truthy_str (q_status q) then Some (d_status d) = q_status q else True) \<and>
      (case q_customerId q of None \<Rightarrow> True | Some c \<Rightarrow> d_customer_id d = c))"

definition select_debts :: "database \<Rightarrow> debts_query \<Rightarrow> debt list" where
  "select_debts db q = order_by_desc d_created_at (filter (debts_where q) (debts db))"

definition debt_with_remaining :: "database \<Rightarrow> debt \<Rightarrow> debt_list_item" where
  "debt_with_remaining db d =
     (let totalPaid = js_or_num (sum_payments db (d_id d)) 0;
          remaining = d_amount d - totalPaid
      in \<lparr> li_debt = d\<lparr> d_paid_amount := Some totalPaid,
                         d_status := (if remaining \<le> 0 then ''paid'' else ''unpaid'') \<rparr>,
           li_customer_name = map_option c_name (join_customer db (Some (d_customer_id d))),
           li_customer_phone =
             Option.bind (join_customer db (Some (d_customer_id d))) c_phone,
           li_transaction_date = map_option t_date (join_transaction db (d_transaction_id d)),
           li_weight_kg = map_option t_weight_kg (join_transaction db (d_transaction_id d)),
           li_price_per_kg = map_option t_price_per_kg (join_transaction db (d_transaction_id d)),
           li_remaining_amount = remaining \<rparr>)"

definition list_debts :: "database \<Rightarrow> debts_query \<Rightarrow> debt_list_item list" where
  "list_debts db q = map (debt_with_remaining db) (select_debts db q)"

subsection \<open>Debts router: one receivable\<close>

text \<open>
  The response spreads the joined row and overrides \<^verbatim>\<open>paid_amount\<close> only; the
  \<^verbatim>\<open>payments\<close> and \<^verbatim>\<open>remaining_amount\<close> keys are added.
\<close>

record debt_detail =
  dd_debt :: debt
  dd_customer_name :: "string option"
  dd_customer_phone :: "string option"
  dd_transaction_date :: "date option"
  dd_payments :: "debt_payment list"
  dd_remaining_amount :: int

definition get_debt :: "database \<Rightarrow> nat \<Rightarrow> error + debt_detail" where
  "get_debt db i =
     (case find (\<lambda>d. d_id d = i) (debts db) of
        None \<Rightarrow> Inl NotFound
      | Some d \<Rightarrow>
          (let payments = select_payments db i;
               totalPaid = foldl (\<lambda>sum p. sum + p_amount p) 0 payments;
               remaining = d_amount d - totalPaid
           in Inr \<lparr> dd_debt = d\<lparr> d_paid_amount := Some totalPaid \<rparr>,
                    dd_customer_name =
                      map_option c_name (join_customer db (Some (d_customer_id d))),
                    dd_customer_phone =
                      Option.bind (join_customer db (Some (d_customer_id d))) c_phone,
                    dd_transaction_date =
                      map_option t_date (join_transaction db (d_transaction_id d)),
                    dd_payments = payments,
                    dd_remaining_amount = remaining \<rparr>))"

subsection \<open>Debts router: payments\<close>

record payment_body =
  b_payment_date :: "date option"
  b_amount :: "int option"
  b_payment_method :: "string option"
  b_notes :: "string option"

text \<open>\<^verbatim>\<open>UPDATE debts SET ... WHERE id = ?\<close> with the assignments as a function on rows.\<close>

definition update_debts_by_id :: "nat \<Rightarrow> (debt \<Rightarrow> debt) \<Rightarrow> database \<Rightarrow> database" where
  "update_debts_by_id i f db =
     db\<lparr> debts := map (\<lambda>d. if d_id d = i then f d else d) (debts db) \<rparr>"

text \<open>\<^verbatim>\<open>INSERT INTO debt_payments (debt_id, payment_date, amount, payment_method, notes)\<close>\<close>

definition insert_payment ::
  "date \<Rightarrow> nat \<Rightarrow> date \<Rightarrow> int \<Rightarrow> string option \<Rightarrow> string option \<Rightarrow> database \<Rightarrow> nat \<times> database" where
  "insert_payment now i pdate amt method notes db =
     (let new_id = next_rowid (seq_debt_payments db) (map p_id (debt_payments db));
          row = \<lparr> p_id = new_id, p_debt_id = i, p_payment_date = pdate, p_amount = amt,
                  p_payment_method = method, p_notes = notes, p_created_at = now \<rparr>
      in (new_id, db\<lparr> debt_payments := debt_payments db @ [row],
                      seq_debt_payments := new_id \<rparr>))"

text \<open>
  The handler returns the database it leaves behind and the response: an error with
  its HTTP status, or the body sent with 201 (what \<^verbatim>\<open>db.get\<close> found for the new id).
\<close>

definition record_payment ::
  "database \<Rightarrow> date \<Rightarrow> nat \<Rightarrow> payment_body \<Rightarrow> database \<times> (error + debt_payment option)" where
  "record_payment db now i body =
     (if \<not> truthy_str (b_payment_date body) \<or> \<not> truthy_num (b_amount body)
      then (db, Inl BadRequest)
      else case find (\<lambda>d. d_id d = i) (debts db) of
        None \<Rightarrow> (db, Inl NotFound)
      | Some debt \<Rightarrow>
          (let (new_id, db1) =
                 insert_payment now i (the (b_payment_date body)) (the (b_amount body))
                   (js_or_null (b_payment_method body)) (js_or_null (b_notes body)) db;
               totalPaid = js_or_num (sum_payments db1 i) 0;
               db2 = (if totalPaid \<ge> d_amount debt
                      then update_debts_by_id i
                             (\<lambda>d. d\<lparr> d_status := ''paid'', d_paid_amount := Some totalPaid,
                                     d_updated_at := now \<rparr>) db1
                      else update_debts_by_id i
                             (\<lambda>d. d\<lparr> d_paid_amount := Some totalPaid, d_updated_at := now \<rparr>) db1)
           in (db2, Inr (find (\<lambda>p. p_id p = new_id) (debt_payments db2)))))"

definition list_payments :: "database \<Rightarrow> nat \<Rightarrow> debt_payment list" where
  "list_payments db i = select_payments db i"

subsection \<open>Transactions router\<close>

record transaction_body =
  tb_date :: "date option"
  tb_pond_id :: "nat option"
  tb_customer_id :: "nat option"
  tb_weight_kg :: "rat option"
  tb_price_per_kg :: "int option"
  tb_payment_method :: "string option"
  tb_payment_status :: "string option"
  tb_notes :: "string option"

text \<open>The number the handler finds in \<^verbatim>\<open>req.body.weight_kg\<close>.\<close>

definition body_weight :: "transaction_body \<Rightarrow> rat option" where
  "body_weight body = map_option binary64 (tb_weight_kg body)"

text \<open>The row the handlers send back: \<^verbatim>\<open>t.*\<close> with the pond and customer names joined.\<close>

record transaction_view =
  tv_transaction :: transaction_row
  tv_pond_name :: "string option"
  tv_customer_name :: "string option"

definition select_transaction_view :: "database \<Rightarrow> nat \<Rightarrow> transaction_view option" where
  "select_transaction_view db i =
     map_option
       (\<lambda>t. \<lparr> tv_transaction = t,
              tv_pond_name = map_option po_name (join_pond db (t_pond_id t)),
              tv_customer_name = map_option c_name (join_customer db (t_customer_id t)) \<rparr>)
       (find (\<lambda>t. t_id t = i) (transactions db))"

definition js_or_null_num :: "nat option \<Rightarrow> nat option" where
  "js_or_null_num v = (if truthy_num v then v else None)"

text \<open>
  \<^verbatim>\<open>INSERT INTO debts (transaction_id, customer_id, amount, status) VALUES (?, ?, ?, 'unpaid')\<close>:
  the other columns take their defaults (\<^verbatim>\<open>paid_amount\<close> 0, the timestamps now).
\<close>

definition insert_debt :: "date \<Rightarrow> nat \<Rightarrow> nat \<Rightarrow> int \<Rightarrow> database \<Rightarrow> database" where
  "insert_debt now tid cid amt db =
     (let new_id = next_rowid (seq_debts db) (map d_id (debts db));
          row = \<lparr> d_id = new_id, d_transaction_id = Some tid, d_customer_id = cid,
                  d_amount = amt, d_paid_amount = Some 0, d_status = ''unpaid'',
                  d_due_date = None, d_notes = None, d_created_at = now, d_updated_at = now \<rparr>
      in db\<lparr> debts := debts db @ [row], seq_debts := new_id \<rparr>)"

definition insert_transaction :: "transaction_row \<Rightarrow> database \<Rightarrow> nat \<times> database" where
  "insert_transaction row db =
     (let new_id = next_rowid (seq_transactions db) (map t_id (transactions db))
      in (new_id, db\<lparr> transactions := transactions db @ [row\<lparr> t_id := new_id \<rparr>],
                      seq_transactions := new_id \<rparr>))"

definition create_transaction ::
  "database \<Rightarrow> date \<Rightarrow> user \<Rightarrow> transaction_body \<Rightarrow> database \<times> (error + transaction_view option)" where
  "create_transaction db now usr body =
     (if \<not> truthy_str (tb_date body) \<or> \<not> truthy_num (tb_customer_id body) \<or>
         \<not> truthy_num (body_weight body) \<or> \<not> truthy_num (tb_price_per_kg body)
      then (db, Inl BadRequest)
      else
        (let tot = Math_round (js_times (the (body_weight body))
                                 (of_int (the (tb_price_per_kg body))));
             (new_id, db1) =
               insert_transaction
                 \<lparr> t_id = 0, t_date = the (tb_date body),
                   t_pond_id = js_or_null_num (tb_pond_id body),
                   t_customer_id = tb_customer_id body,
                   t_weight_kg = the (body_weight body),
                   t_price_per_kg = the (tb_price_per_kg body),
                   t_total = tot,
                   t_payment_method = js_or_null (tb_payment_method body),
                   t_payment_status = js_or_str (tb_payment_status body) ''paid'',
                   t_notes = js_or_null (tb_notes body),
                   t_created_by = Some (u_id usr),
                   t_created_at = now \<rparr> db;
             db2 = (if tb_payment_status body = Some ''unpaid''
                    then insert_debt now new_id (the (tb_customer_id body)) tot db1
                    else db1)
         in (db2, Inr (select_transaction_view db2 new_id))))"

text \<open>
  \<^verbatim>\<open>Math.round(weight_kg * price_per_kg)\<close> in the update handler, which validates
  nothing: a missing operand gives \<^verbatim>\<open>NaN\<close>, which SQLite binds as NULL.
\<close>

definition update_total :: "transaction_body \<Rightarrow> int option" where
  "update_total body =
     (case body_weight body of
        None \<Rightarrow> None
      | Some w \<Rightarrow> (case tb_price_per_kg body of
                     None \<Rightarrow> None
                   | Some p \<Rightarrow> Some (Math_round (js_times w (of_int p)))))"

text \<open>
  \<^verbatim>\<open>UPDATE transactions SET date = ?, ... WHERE id = ?\<close>. The statement fails
  (\<open>None\<close>, the table unchanged) when a row matches and a \<^verbatim>\<open>NOT NULL\<close> column
  (date, weight_kg, price_per_kg, total, payment_status) would become NULL.
\<close>

definition update_transaction_row :: "nat \<Rightarrow> transaction_body \<Rightarrow> database \<Rightarrow> database option" where
  "update_transaction_row i body db =
     (if find (\<lambda>t. t_id t = i) (transactions db) = None then Some db
      else if tb_date body = None \<or> body_weight body = None \<or> tb_price_per_kg body = None \<or>
              update_total body = None \<or> tb_payment_status body = None then None
      else Some (db\<lparr> transactions :=
                  map (\<lambda>t. if t_id t = i
                            then t\<lparr> t_date := the (tb_date body),
                                    t_pond_id := tb_pond_id body,
                                    t_customer_id := tb_customer_id body,
                                    t_weight_kg := the (body_weight body),
                                    t_price_per_kg := the (tb_price_per_kg body),
                                    t_total := the (update_total body),
                                    t_payment_method := tb_payment_method body,
                                    t_payment_status := the (tb_payment_status body),
                                    t_notes := tb_notes body \<rparr>
                            else t) (transactions db) \<rparr>))"

text \<open>\<^verbatim>\<open>UPDATE debts SET ... WHERE transaction_id = ?\<close>\<close>

definition update_debts_by_transaction :: "nat \<Rightarrow> (debt \<Rightarrow> debt) \<Rightarrow> database \<Rightarrow> database" where
  "update_debts_by_transaction i f db =
     db\<lparr> debts := map (\<lambda>d. if d_transaction_id d = Some i then f d else d) (debts db) \<rparr>"

text \<open>
  The debt statements of the update handler; \<open>None\<close> when the statement fails on a
  \<^verbatim>\<open>NOT NULL\<close> column (customer_id or amount of a debt).
\<close>

definition sync_debt :: "date \<Rightarrow> nat \<Rightarrow> transaction_body \<Rightarrow> database \<Rightarrow> database option" where
  "sync_debt now i body db =
     (if tb_payment_status body = Some ''unpaid''
      then (case find (\<lambda>d. d_transaction_id d = Some i) (debts db) of
              None \<Rightarrow>
                (case tb_customer_id body of
                   None \<Rightarrow> None
                 | Some c \<Rightarrow> (case update_total body of
                                None \<Rightarrow> None
                              | Some tot \<Rightarrow> Some (insert_debt now i c tot db)))
            | Some existingDebt \<Rightarrow>
                (case update_total body of
                   None \<Rightarrow> None
                 | Some tot \<Rightarrow>
                     Some (update_debts_by_transaction i (\<lambda>d. d\<lparr> d_amount := tot \<rparr>) db)))
      else Some (update_debts_by_transaction i (\<lambda>d. d\<lparr> d_status := ''paid'' \<rparr>) db))"

text \<open>
  The statements are not wrapped in an SQL transaction: when the second one fails, the
  first one's write stays.
\<close>

definition update_transaction ::
  "database \<Rightarrow> date \<Rightarrow> nat \<Rightarrow> transaction_body \<Rightarrow> database \<times> (error + transaction_view option)" where
  "update_transaction db now i body =
     (case update_transaction_row i body db of
        None \<Rightarrow> (db, Inl ServerError)
      | Some db1 \<Rightarrow>
          (case sync_debt now i body db1 of
             None \<Rightarrow> (db1, Inl ServerError)
           | Some db2 \<Rightarrow> (db2, Inr (select_transaction_view db2 i))))"

definition delete_transaction :: "database \<Rightarrow> user \<Rightarrow> nat \<Rightarrow> database \<times> (error + string)" where
  "delete_transaction db usr i =
     (if u_role usr \<noteq> ''admin'' \<and> u_role usr \<noteq> ''owner''
      then (db, Inl Forbidden)
      else
        (let db1 = db\<lparr> transactions := filter (\<lambda>t. t_id t \<noteq> i) (transactions db) \<rparr>;
             db2 = db1\<lparr> debts := filter (\<lambda>d. d_transaction_id d \<noteq> Some i) (debts db1) \<rparr>
         in (db2, Inr ''Transaction deleted successfully'')))"

subsection \<open>A sale on credit, followed through the handlers\<close>

text \<open>
  Concrete states for the examples below: a sale of 10 kg at 1500 on credit, a first
  instalment of 5000, and the three ways the story can go on (the sale is deleted,
  its weight is corrected to 2 kg, it is marked paid).
\<close>

definition clerk :: user where
  "clerk = \<lparr> u_id = 1, u_role = ''employee'' \<rparr>"

definition boss :: user where
  "boss = \<lparr> u_id = 2, u_role = ''owner'' \<rparr>"

definition sale_body :: transaction_body where
  "sale_body = \<lparr> tb_date = Some ''2024-01-10'', tb_pond_id = None, tb_customer_id = Some 1,
                  tb_weight_kg = Some 10, tb_price_per_kg = Some 1500,
                  tb_payment_method = None, tb_payment_status = Some ''unpaid'',
                  tb_notes = None \<rparr>"

definition instalment :: payment_body where
  "instalment = \<lparr> b_payment_date = Some ''2024-01-11'', b_amount = Some 5000,
                   b_payment_method = Some ''cash'', b_notes = None \<rparr>"

definition sale_row :: transaction_row where
  "sale_row = \<lparr> t_id = 1, t_date = ''2024-01-10'', t_pond_id = None, t_customer_id = Some 1,
                 t_weight_kg = 10, t_price_per_kg = 1500, t_total = 15000,
                 t_payment_method = None, t_payment_status = ''unpaid'', t_notes = None,
                 t_created_by = Some 1, t_created_at = ''2024-01-10 08:00:00'' \<rparr>"

definition sale_debt :: debt where
  "sale_debt = \<lparr> d_id = 1, d_transaction_id = Some 1, d_customer_id = 1, d_amount = 15000,
                  d_paid_amount = Some 0, d_status = ''unpaid'', d_due_date = None,
                  d_notes = None, d_created_at = ''2024-01-10 08:00:00'',
                  d_updated_at = ''2024-01-10 08:00:00'' \<rparr>"

definition first_payment :: debt_payment where
  "first_payment = \<lparr> p_id = 1, p_debt_id = 1, p_payment_date = ''2024-01-11'',
                      p_amount = 5000, p_payment_method = Some ''cash'', p_notes = None,
                      p_created_at = ''2024-01-11 09:00:00'' \<rparr>"

definition start_db :: database where
  "start_db = \<lparr> customers = [\<lparr> c_id = 1, c_name = ''Budi'', c_phone = None \<rparr>], ponds = [],
                 transactions = [], debts = [], debt_payments = [],
                 seq_transactions = 0, seq_debts = 0, seq_debt_payments = 0 \<rparr>"

definition sold_db :: database where
  "sold_db = start_db\<lparr> transactions := [sale_row], debts := [sale_debt],
                        seq_transactions := 1, seq_debts := 1 \<rparr>"

definition part_paid_db :: database where
  "part_paid_db =
     sold_db\<lparr> debts := [sale_debt\<lparr> d_paid_amount := Some 5000,
                                    d_updated_at := ''2024-01-11 09:00:00'' \<rparr>],
              debt_payments := [first_payment], seq_debt_payments := 1 \<rparr>"

definition orphaned_db :: database where
  "orphaned_db = part_paid_db\<lparr> transactions := [], debts := [] \<rparr>"

definition overpaid_db :: database where
  "overpaid_db =
     part_paid_db\<lparr> transactions := [sale_row\<lparr> t_weight_kg := 2, t_total := 3000 \<rparr>],
                   debts := [sale_debt\<lparr> d_amount := 3000, d_paid_amount := Some 5000,
                                         d_updated_at := ''2024-01-11 09:00:00'' \<rparr>] \<rparr>"

definition settled_db :: database where
  "settled_db =
     part_paid_db\<lparr> transactions := [sale_row\<lparr> t_payment_status := ''paid'' \<rparr>],
                   debts := [sale_debt\<lparr> d_paid_amount := Some 5000, d_status := ''paid'',
                                         d_updated_at := ''2024-01-11 09:00:00'' \<rparr>] \<rparr>"

text \<open>
  Further requests and states: a payment of nothing, a refund, the last instalment,
  and a state whose stored \<^verbatim>\<open>paid_amount\<close> was edited behind the handlers' back.
\<close>

definition zero_instalment :: payment_body where
  "zero_instalment = instalment\<lparr> b_amount := Some 0 \<rparr>"

definition refund :: payment_body where
  "refund = instalment\<lparr> b_amount := Some (- 2000) \<rparr>"

definition final_instalment :: payment_body where
  "final_instalment = \<lparr> b_payment_date = Some ''2024-01-20'', b_amount = Some 10000,
                         b_payment_method = None, b_notes = None \<rparr>"

definition drifted_db :: database where
  "drifted_db = part_paid_db\<lparr> debts := [sale_debt\<lparr> d_paid_amount := Some 1 \<rparr>] \<rparr>"

definition second_payment :: debt_payment where
  "second_payment = \<lparr> p_id = 2, p_debt_id = 1, p_payment_date = ''2024-01-20'',
                       p_amount = 10000, p_payment_method = None, p_notes = None,
                       p_created_at = ''2024-01-20 09:00:00'' \<rparr>"

definition resynced_db :: database where
  "resynced_db =
     drifted_db\<lparr> debts := [sale_debt\<lparr> d_paid_amount := Some 15000, d_status := ''paid'',
                                       d_updated_at := ''2024-01-20 09:00:00'' \<rparr>],
                 debt_payments := [first_payment, second_payment],
                 seq_debt_payments := 2 \<rparr>"

definition all_debts :: debts_query where
  "all_debts = \<lparr> q_status = None, q_customerId = None \<rparr>"

definition unpaid_only :: debts_query where
  "unpaid_only = \<lparr> q_status = Some ''unpaid'', q_customerId = None \<rparr>"

definition paid_only :: debts_query where
  "paid_only = \<lparr> q_status = Some ''paid'', q_customerId = None \<rparr>"

text \<open>
  The same sale paid in cash, a sale of 0.35 kg at 350 (the product of the two numbers
  is just below 122.5, their exact product is 122.5), and the two edits of the sale on
  credit.
\<close>

definition cash_body :: transaction_body where
  "cash_body = sale_body\<lparr> tb_payment_status := None \<rparr>"

definition light_body :: transaction_body where
  "light_body = sale_body\<lparr> tb_weight_kg := Some (35 / 100), tb_price_per_kg := Some 350 \<rparr>"

definition corrected_body :: transaction_body where
  "corrected_body = sale_body\<lparr> tb_weight_kg := Some 2 \<rparr>"

definition settled_body :: transaction_body where
  "settled_body = sale_body\<lparr> tb_payment_status := Some ''paid'' \<rparr>"

section \<open>Properties\<close>

subsection \<open>Sorting\<close>

lemma mset_insert_desc: "mset (insert_desc key x xs) = add_mset x (mset xs)"
  by (induction xs) auto

lemma mset_order_by_desc: "mset (order_by_desc key xs) = mset xs"
  unfolding order_by_desc_def by (induction xs) (auto simp: mset_insert_desc)

lemma set_order_by_desc: "set (order_by_desc key xs) = set xs"
  using mset_order_by_desc [of key xs] by (metis set_mset_mset)

lemma set_insert_desc: "set (insert_desc key x xs) = insert x (set xs)"
  using mset_insert_desc [of key x xs] by (metis set_mset_mset set_mset_add_mset_insert)

lemma sorted_insert_desc:
  "sorted_wrt (\<lambda>a b. key b \<le> key a) xs \<Longrightarrow>
   sorted_wrt (\<lambda>a b. key b \<le> key a) (insert_desc key x xs)"
  by (induction xs) (auto simp: set_insert_desc)

lemma sorted_order_by_desc: "sorted_wrt (\<lambda>a b. key b \<le> key a) (order_by_desc key xs)"
  unfolding order_by_desc_def by (induction xs) (auto simp: sorted_insert_desc)

lemma js_or_num_zero: "js_or_num x 0 = x"
  by (simp add: js_or_num_def)

subsection \<open>Evaluation on concrete inputs\<close>

lemma Math_round_of_int: "Math_round (of_int n) = n"
  unfolding Math_round_def by linarith

lemma Math_round_numeral: "Math_round (numeral k) = numeral k"
  using Math_round_of_int [of "numeral k"] by simp

text \<open>The numbers of the examples: small integers are binary64 numbers, 0.35 is not.\<close>

lemma binary64_10: "binary64 10 = 10"
  by code_simp

lemma binary64_2: "binary64 2 = 2"
  by code_simp

lemma binary64_7_20: "binary64 (7 / 20) = 3152519739159347 / 9007199254740992"
  by code_simp

lemma js_times_10_1500: "js_times 10 1500 = 15000"
  by code_simp

lemma js_times_2_1500: "js_times 2 1500 = 3000"
  by code_simp

lemma Math_round_7_20_350:
  "Math_round (js_times (3152519739159347 / 9007199254740992) 350) = 122"
  by code_simp

lemmas js_defs = truthy_str_def truthy_num_def js_or_num_def js_or_null_def js_or_str_def
  js_or_null_num_def Math_round_numeral body_weight_def binary64_10 binary64_2 binary64_7_20
  js_times_10_1500 js_times_2_1500 Math_round_7_20_350

subsection \<open>A number and its binary64 value vanish together\<close>

lemma exponent2_lower:
  assumes "0 < y"
  shows "2 powi exponent2 y \<le> y"
proof (cases "1 \<le> y")
  case True
  then have n: "0 < \<lfloor>y\<rfloor>"
    by linarith
  from bitlen_bounds [OF n] have "(2::int) ^ nat (bitlen \<lfloor>y\<rfloor> - 1) \<le> \<lfloor>y\<rfloor>"
    by simp
  then have "(of_int ((2::int) ^ nat (bitlen \<lfloor>y\<rfloor> - 1)) :: rat) \<le> of_int \<lfloor>y\<rfloor>"
    by (simp only: of_int_le_iff)
  then have "(2::rat) ^ nat (bitlen \<lfloor>y\<rfloor> - 1) \<le> y"
    by (simp add: order_trans [OF _ of_int_floor_le])
  moreover from n have "0 \<le> bitlen \<lfloor>y\<rfloor> - 1"
    using bitlen_eq_zero_iff [of "\<lfloor>y\<rfloor>"] bitlen_nonneg [of "\<lfloor>y\<rfloor>"] by linarith
  ultimately show ?thesis
    using True by (simp add: exponent2_def power_int_def)
next
  case False
  with assms have "1 < 1 / y"
    by simp
  then have n: "0 < \<lceil>1 / y\<rceil> - 1"
    by linarith
  from bitlen_bounds [OF n] have "\<lceil>1 / y\<rceil> - 1 < (2::int) ^ nat (bitlen (\<lceil>1 / y\<rceil> - 1))"
    by simp
  then have "\<lceil>1 / y\<rceil> \<le> (2::int) ^ nat (bitlen (\<lceil>1 / y\<rceil> - 1))"
    by linarith
  then have "(of_int \<lceil>1 / y\<rceil> :: rat) \<le> of_int ((2::int) ^ nat (bitlen (\<lceil>1 / y\<rceil> - 1)))"
    by (simp only: of_int_le_iff)
  then have "1 / y \<le> (2::rat) ^ nat (bitlen (\<lceil>1 / y\<rceil> - 1))"
    by (simp add: order_trans [OF le_of_int_ceiling])
  with assms have "1 / (2::rat) ^ nat (bitlen (\<lceil>1 / y\<rceil> - 1)) \<le> y"
    by (simp add: field_simps)
  moreover from n have "0 < bitlen (\<lceil>1 / y\<rceil> - 1)"
    using bitlen_eq_zero_iff [of "\<lceil>1 / y\<rceil> - 1"] bitlen_nonneg [of "\<lceil>1 / y\<rceil> - 1"]
    by linarith
  ultimately show ?thesis
    using False by (simp add: exponent2_def power_int_def field_simps)
qed

lemma round_half_even_pos: "1 \<le> m \<Longrightarrow> 0 < round_half_even m"
proof -
  assume "1 \<le> m"
  then have "1 \<le> \<lfloor>m\<rfloor>"
    by linarith
  then show ?thesis
    by (simp add: round_half_even_def Let_def)
qed

lemma binary64_eq_0_iff: "binary64 x = 0 \<longleftrightarrow> x = 0"
proof (cases "x = 0")
  case True
  then show ?thesis
    by (simp add: binary64_def)
next
  case False
  define ulp :: rat where "ulp = 2 powi (exponent2 \<bar>x\<bar> - 52)"
  have pos: "0 < ulp"
    by (simp add: ulp_def)
  have "ulp \<le> 2 powi exponent2 \<bar>x\<bar>"
    unfolding ulp_def by (rule power_int_increasing) simp_all
  also from False have "\<dots> \<le> \<bar>x\<bar>"
    by (intro exponent2_lower) simp
  finally have "1 \<le> \<bar>x\<bar> / ulp"
    using pos by simp
  then have "0 < round_half_even (\<bar>x\<bar> / ulp)"
    by (rule round_half_even_pos)
  with False pos show ?thesis
    by (simp add: binary64_def Let_def ulp_def [symmetric] sgn_eq_0_iff)
qed

lemma truthy_body_weight:
  "truthy_num (body_weight body) \<longleftrightarrow> truthy_num (tb_weight_kg body)"
  by (cases "tb_weight_kg body") (simp_all add: body_weight_def truthy_num_def binary64_eq_0_iff)

subsection \<open>Integers below \<open>2^53\<close> are binary64 numbers\<close>

lemma round_half_even_of_int: "round_half_even (of_int k) = k"
  by (simp add: round_half_even_def)

lemma binary64_of_int:
  assumes "\<bar>n\<bar> < 2 ^ 53"
  shows "binary64 (of_int n) = of_int n"
proof (cases "n = 0")
  case True
  then show ?thesis by (simp add: binary64_def)
next
  case False
  define a where "a = \<bar>n\<bar>"
  from False have a: "0 < a" "1 \<le> (of_int a :: rat)"
    by (simp_all add: a_def)
  from assms have "bitlen a \<le> 53"
    by (simp add: a_def bitlen_le_iff_power)
  define j where "j = nat (53 - bitlen a)"
  with \<open>bitlen a \<le> 53\<close> have j: "bitlen a - 1 - 52 = - int j"
    by simp
  have abs: "\<bar>of_int n :: rat\<bar> = of_int a"
    by (simp add: a_def)
  have e: "exponent2 \<bar>of_int n :: rat\<bar> = bitlen a - 1"
    unfolding abs using a(2) by (simp add: exponent2_def)
  have ulp: "(2::rat) powi (exponent2 \<bar>of_int n\<bar> - 52) = inverse (2 ^ j)"
    by (simp only: e j power_int_minus power_int_of_nat)
  have "\<bar>of_int n :: rat\<bar> / inverse (2 ^ j) = of_int (a * 2 ^ j)"
    unfolding abs by (simp add: field_simps)
  then have "round_half_even (\<bar>of_int n :: rat\<bar> / inverse (2 ^ j)) = a * 2 ^ j"
    by (simp only: round_half_even_of_int)
  with False show ?thesis
    by (simp add: binary64_def Let_def ulp a_def sgn_if)
qed

lemma whole_weight_total:
  assumes "\<bar>n\<bar> < 2 ^ 53" and "\<bar>n * p\<bar> < 2 ^ 53"
  shows "Math_round (js_times (binary64 (of_int n)) (of_int p)) = n * p"
proof -
  have "js_times (binary64 (of_int n)) (of_int p) = binary64 (of_int (n * p))"
    by (simp add: js_times_def binary64_of_int [OF assms(1)])
  also have "\<dots> = of_int (n * p)"
    by (rule binary64_of_int [OF assms(2)])
  finally show ?thesis
    by (simp only: Math_round_of_int)
qed

text \<open>
  Fractions are rounded, a tie goes to the even significand: 0.15 kg at 10 gives 2
  (the product of the two numbers is 1.5), 1.005 kg at 27500 gives 27637.
\<close>

lemma binary64_rounding_examples:
  "Math_round (js_times (binary64 (15 / 100)) 10) = 2"
  "Math_round (js_times (binary64 (1005 / 1000)) 27500) = 27637"
  "binary64 (1 / 10) = 3602879701896397 / 36028797018963968"
  "binary64 9007199254740993 = 9007199254740992"
  "binary64 9007199254740995 = 9007199254740996"
  by code_simp+

lemmas sql_defs = next_rowid_def sum_payments_def select_payments_def order_by_desc_def
  join_customer_def join_pond_def join_transaction_def update_debts_by_id_def
  insert_payment_def insert_debt_def insert_transaction_def select_transaction_view_def
  update_total_def update_transaction_row_def update_debts_by_transaction_def sync_debt_def

lemmas story_defs = clerk_def boss_def sale_body_def instalment_def sale_row_def sale_debt_def
  first_payment_def start_db_def sold_db_def part_paid_db_def orphaned_db_def overpaid_db_def
  settled_db_def all_debts_def zero_instalment_def refund_def final_instalment_def
  drifted_db_def second_payment_def resynced_db_def unpaid_only_def paid_only_def
  cash_body_def light_body_def corrected_body_def settled_body_def

text \<open>The example states are the ones the handlers produce, one request after the other.\<close>

lemma story_create:
  "create_transaction start_db ''2024-01-10 08:00:00'' clerk sale_body =
     (sold_db, Inr (Some \<lparr> tv_transaction = sale_row, tv_pond_name = None,
                            tv_customer_name = Some ''Budi'' \<rparr>))"
  by (simp add: create_transaction_def js_defs sql_defs story_defs Let_def)

lemma story_pay:
  "record_payment sold_db ''2024-01-11 09:00:00'' 1 instalment =
     (part_paid_db, Inr (Some first_payment))"
  by (simp add: record_payment_def js_defs sql_defs story_defs Let_def)

lemma story_delete:
  "delete_transaction part_paid_db boss 1 =
     (orphaned_db, Inr ''Transaction deleted successfully'')"
  by (simp add: delete_transaction_def story_defs Let_def)

lemma story_correct_weight:
  "update_transaction part_paid_db ''2024-01-12 10:00:00'' 1 corrected_body =
     (overpaid_db, Inr (Some \<lparr> tv_transaction = sale_row\<lparr> t_weight_kg := 2, t_total := 3000 \<rparr>,
                               tv_pond_name = None, tv_customer_name = Some ''Budi'' \<rparr>))"
  by (simp add: update_transaction_def js_defs sql_defs story_defs Let_def)

lemma story_mark_paid:
  "update_transaction part_paid_db ''2024-01-12 10:00:00'' 1 settled_body =
     (settled_db, Inr (Some \<lparr> tv_transaction = sale_row\<lparr> t_payment_status := ''paid'' \<rparr>,
                              tv_pond_name = None, tv_customer_name = Some ''Budi'' \<rparr>))"
  by (simp add: update_transaction_def js_defs sql_defs story_defs Let_def)

subsection \<open>Fresh row ids\<close>

lemma fold_max_upper: "s \<le> fold max ids (s::nat) \<and> (\<forall>x \<in> set ids. x \<le> fold max ids s)"
proof (induction ids arbitrary: s)
  case Nil
  show ?case by simp
next
  case (Cons a ids)
  from Cons.IH [of "max a s"] show ?case by auto
qed

lemma next_rowid_fresh: "next_rowid s ids \<notin> set ids"
  using fold_max_upper [of s ids] by (auto simp: next_rowid_def)

lemma find_snoc_fresh: "\<forall>x \<in> set xs. \<not> P x \<Longrightarrow> P y \<Longrightarrow> find P (xs @ [y]) = Some y"
  by (induction xs) auto

subsection \<open>The list of receivables\<close>

lemma set_select_debts: "set (select_debts db q) = {d \<in> set (debts db). debts_where q d}"
  by (simp add: select_debts_def set_order_by_desc)

text \<open>
  C1. Every row of the list response comes from a debt row of the table, and for
  that debt \<^verbatim>\<open>paid_amount\<close> is the sum of the amounts of its payment rows,
  \<^verbatim>\<open>remaining_amount\<close> is the debt's amount minus that sum, and \<^verbatim>\<open>status\<close> is
  \<^verbatim>\<open>'paid'\<close> when the remaining amount is at most zero and \<^verbatim>\<open>'unpaid'\<close> otherwise:
  the stored status does not enter.
\<close>

theorem list_debts_recomputes:
  assumes "r \<in> set (list_debts db q)"
  shows "\<exists>d \<in> set (debts db).
           d_id (li_debt r) = d_id d \<and> d_amount (li_debt r) = d_amount d \<and>
           d_paid_amount (li_debt r) =
             Some (sum_list (map p_amount (filter (\<lambda>p. p_debt_id p = d_id d) (debt_payments db)))) \<and>
           li_remaining_amount r =
             d_amount d - sum_list (map p_amount (filter (\<lambda>p. p_debt_id p = d_id d) (debt_payments db))) \<and>
           d_status (li_debt r) = (if li_remaining_amount r \<le> 0 then ''paid'' else ''unpaid'')"
proof -
  from assms obtain d where d: "d \<in> set (select_debts db q)" and r: "r = debt_with_remaining db d"
    by (auto simp: list_debts_def)
  from d have "d \<in> set (debts db)"
    by (simp add: set_select_debts)
  moreover from r have "d_id (li_debt r) = d_id d" "d_amount (li_debt r) = d_amount d"
    by (simp_all add: debt_with_remaining_def Let_def)
  moreover from r have
    "d_paid_amount (li_debt r) =
       Some (sum_list (map p_amount (filter (\<lambda>p. p_debt_id p = d_id d) (debt_payments db))))"
    "li_remaining_amount r =
       d_amount d - sum_list (map p_amount (filter (\<lambda>p. p_debt_id p = d_id d) (debt_payments db)))"
    by (simp_all add: debt_with_remaining_def Let_def js_or_num_zero sum_payments_def)
  moreover from r have
    "d_status (li_debt r) = (if li_remaining_amount r \<le> 0 then ''paid'' else ''unpaid'')"
    by (simp add: debt_with_remaining_def Let_def)
  ultimately show ?thesis
    by blast
qed

text \<open>
  After the weight correction the debt is stored as unpaid with 3000 owed and 5000
  paid; the list shows it as paid with -2000 remaining.
\<close>

theorem list_debts_recomputes_witness:
  "debt_with_remaining overpaid_db (hd (debts overpaid_db))
     \<in> set (list_debts overpaid_db all_debts) \<and>
   d_status (hd (debts overpaid_db)) = ''unpaid'' \<and>
   d_paid_amount (li_debt (debt_with_remaining overpaid_db (hd (debts overpaid_db)))) = Some 5000 \<and>
   li_remaining_amount (debt_with_remaining overpaid_db (hd (debts overpaid_db))) = - 2000 \<and>
   d_status (li_debt (debt_with_remaining overpaid_db (hd (debts overpaid_db)))) = ''paid''"
proof -
  have h: "debt_with_remaining overpaid_db (hd (debts overpaid_db))
             \<in> set (list_debts overpaid_db all_debts)"
    by (simp add: list_debts_def select_debts_def debts_where_def js_defs sql_defs story_defs)
  from list_debts_recomputes [OF h] h show ?thesis
    by (simp add: story_defs)
qed


subsection \<open>Recording a payment\<close>

lemma new_payment_found:
  "find (\<lambda>p. p_id p = next_rowid s (map p_id ps)) (ps @ [row\<lparr> p_id := next_rowid s (map p_id ps) \<rparr>])
     = Some (row\<lparr> p_id := next_rowid s (map p_id ps) \<rparr>)"
proof (rule find_snoc_fresh)
  show "\<forall>x \<in> set ps. \<not> p_id x = next_rowid s (map p_id ps)"
    using next_rowid_fresh [of s "map p_id ps"] by (metis image_eqI list.set_map)
  show "p_id (row\<lparr> p_id := next_rowid s (map p_id ps) \<rparr>) = next_rowid s (map p_id ps)"
    by simp
qed


lemma record_payment_accepted:
  assumes "truthy_str (b_payment_date body)" and "truthy_num (b_amount body)"
    and "find (\<lambda>d. d_id d = i) (debts db) = Some debt"
  shows "record_payment db now i body =
     (let row = \<lparr> p_id = next_rowid (seq_debt_payments db) (map p_id (debt_payments db)),
                  p_debt_id = i, p_payment_date = the (b_payment_date body),
                  p_amount = the (b_amount body),
                  p_payment_method = js_or_null (b_payment_method body),
                  p_notes = js_or_null (b_notes body), p_created_at = now \<rparr>;
          paid = sum_payments db i + the (b_amount body)
      in (db\<lparr> debt_payments := debt_payments db @ [row],
              seq_debt_payments := p_id row,
              debts := map (\<lambda>d. if d_id d = i
                                then d\<lparr> d_status := (if d_amount debt \<le> paid then ''paid''
                                                      else d_status d),
                                        d_paid_amount := Some paid, d_updated_at := now \<rparr>
                                else d) (debts db) \<rparr>,
          Inr (Some row)))"
  using assms new_payment_found [of "seq_debt_payments db" "debt_payments db"
      "\<lparr> p_id = 0, p_debt_id = i, p_payment_date = the (b_payment_date body),
                  p_amount = the (b_amount body),
                  p_payment_method = js_or_null (b_payment_method body),
                  p_notes = js_or_null (b_notes body), p_created_at = now \<rparr>"]
  by (simp add: record_payment_def insert_payment_def update_debts_by_id_def sum_payments_def
      js_or_num_zero Let_def)

lemma find_debt_iff: "(\<exists>d. find (\<lambda>d. d_id d = i) ds = Some d) \<longleftrightarrow> (\<exists>d \<in> set ds. d_id d = i)"
  by (induction ds) auto


lemma falsy_str_iff: "\<not> truthy_str v \<longleftrightarrow> v = None \<or> v = Some []"
  by (cases v) (simp_all add: truthy_str_def)

lemma falsy_num_iff: "\<not> truthy_num v \<longleftrightarrow> v = None \<or> v = Some 0"
  by (cases v) (simp_all add: truthy_num_def)

lemma record_payment_rejected:
  "\<not> truthy_str (b_payment_date body) \<or> \<not> truthy_num (b_amount body) \<Longrightarrow>
   record_payment db now i body = (db, Inl BadRequest)"
  by (simp add: record_payment_def)

lemma record_payment_unknown:
  "truthy_str (b_payment_date body) \<Longrightarrow> truthy_num (b_amount body) \<Longrightarrow>
   find (\<lambda>d. d_id d = i) (debts db) = None \<Longrightarrow>
   record_payment db now i body = (db, Inl NotFound)"
  by (simp add: record_payment_def)

lemma paid_amount_after_update:
  assumes "d' \<in> set (map (\<lambda>d. if d_id d = i
                            then d\<lparr> d_status := s d, d_paid_amount := Some paid,
                                    d_updated_at := now \<rparr>
                            else d) ds)"
    and "d_id d' = i"
  shows "d_paid_amount d' = Some paid"
proof -
  from assms(1) obtain d where d: "d' = (if d_id d = i
                            then d\<lparr> d_status := s d, d_paid_amount := Some paid,
                                    d_updated_at := now \<rparr>
                            else d)"
    by (auto simp only: set_map)
  show ?thesis
  proof (cases "d_id d = i")
    case True
    with d show ?thesis by simp
  next
    case False
    with d have "d' = d" by simp
    with False assms(2) show ?thesis by simp
  qed
qed

text \<open>
  C2, as the claim states it: every payment request on an existing debt would insert a
  payment row. A request with amount zero on debt 1 is answered with 400 and the
  payments table stays empty.
\<close>

theorem zero_payment_not_recorded:
  "map d_id (debts sold_db) = [1] \<and>
   b_amount zero_instalment = Some 0 \<and>
   debt_payments sold_db = [] \<and>
   debt_payments (fst (record_payment sold_db ''2024-01-11 09:00:00'' 1 zero_instalment)) = [] \<and>
   debts (fst (record_payment sold_db ''2024-01-11 09:00:00'' 1 zero_instalment)) = debts sold_db \<and>
   snd (record_payment sold_db ''2024-01-11 09:00:00'' 1 zero_instalment) = Inl BadRequest"
  by (simp add: record_payment_def js_defs story_defs)

text \<open>
  C2, amended. A request that passes validation (a payment date and a non-zero amount
  \<open>a\<close>) on an existing debt of amount \<open>m\<close> with \<open>p\<close> paid so far inserts one payment
  row and answers with it; the debt's stored \<^verbatim>\<open>paid_amount\<close> becomes \<open>p + a\<close>, and its
  stored status becomes \<^verbatim>\<open>'paid'\<close> when \<open>p + a \<ge> m\<close> and stays as it was otherwise.
\<close>

theorem record_payment_effect:
  assumes date: "truthy_str (b_payment_date body)"
    and amount: "b_amount body = Some a" "a \<noteq> 0"
    and debt: "find (\<lambda>d. d_id d = i) (debts db) = Some debt"
    and p: "p = sum_list (map p_amount (filter (\<lambda>x. p_debt_id x = i) (debt_payments db)))"
    and m: "m = d_amount debt"
  shows "\<exists>row db'.
           record_payment db now i body = (db', Inr (Some row)) \<and>
           debt_payments db' = debt_payments db @ [row] \<and>
           p_debt_id row = i \<and> p_amount row = a \<and>
           Some (p_payment_date row) = b_payment_date body \<and>
           debts db' =
             map (\<lambda>d. if d_id d = i
                       then d\<lparr> d_status := (if p + a \<ge> m then ''paid'' else d_status d),
                               d_paid_amount := Some (p + a), d_updated_at := now \<rparr>
                       else d) (debts db)"
proof -
  from amount have "truthy_num (b_amount body)"
    by (simp add: truthy_num_def)
  from record_payment_accepted [OF date this debt, of now] date amount p m
  show ?thesis
    by (auto simp: Let_def sum_payments_def truthy_str_def split: option.splits)
qed

text \<open>The first instalment leaves the debt unpaid; the last one settles it.\<close>

theorem record_payment_effect_witness:
  "(\<exists>row db'. record_payment sold_db ''2024-01-11 09:00:00'' 1 instalment = (db', Inr (Some row)) \<and>
      debt_payments db' = [row] \<and> p_debt_id row = 1 \<and> p_amount row = 5000 \<and>
      map d_status (debts db') = [''unpaid''] \<and> map d_paid_amount (debts db') = [Some 5000]) \<and>
   (\<exists>row db'. record_payment part_paid_db ''2024-01-20 09:00:00'' 1 final_instalment =
        (db', Inr (Some row)) \<and>
      debt_payments db' = [first_payment, row] \<and> p_debt_id row = 1 \<and> p_amount row = 10000 \<and>
      map d_status (debts db') = [''paid''] \<and> map d_paid_amount (debts db') = [Some 15000])"
proof -
  have a: "truthy_str (b_payment_date instalment)" "b_amount instalment = Some 5000"
    "find (\<lambda>d. d_id d = 1) (debts sold_db) = Some sale_debt"
    "0 = sum_list (map p_amount (filter (\<lambda>x. p_debt_id x = 1) (debt_payments sold_db)))"
    "15000 = d_amount sale_debt"
    by (simp_all add: js_defs story_defs)
  have b: "truthy_str (b_payment_date final_instalment)" "b_amount final_instalment = Some 10000"
    "find (\<lambda>d. d_id d = 1) (debts part_paid_db) = Some (hd (debts part_paid_db))"
    "5000 = sum_list (map p_amount (filter (\<lambda>x. p_debt_id x = 1) (debt_payments part_paid_db)))"
    "15000 = d_amount (hd (debts part_paid_db))"
    by (simp_all add: js_defs story_defs)
  from record_payment_effect [OF a(1,2) _ a(3,4,5), of "''2024-01-11 09:00:00''"]
  have "\<exists>row db'. record_payment sold_db ''2024-01-11 09:00:00'' 1 instalment = (db', Inr (Some row)) \<and>
      debt_payments db' = [row] \<and> p_debt_id row = 1 \<and> p_amount row = 5000 \<and>
      map d_status (debts db') = [''unpaid''] \<and> map d_paid_amount (debts db') = [Some 5000]"
    by (clarsimp simp: story_defs)
  moreover
  from record_payment_effect [OF b(1,2) _ b(3,4,5), of "''2024-01-20 09:00:00''"]
  have "\<exists>row db'. record_payment part_paid_db ''2024-01-20 09:00:00'' 1 final_instalment =
        (db', Inr (Some row)) \<and>
      debt_payments db' = [first_payment, row] \<and> p_debt_id row = 1 \<and> p_amount row = 10000 \<and>
      map d_status (debts db') = [''paid''] \<and> map d_paid_amount (debts db') = [Some 15000]"
    by (clarsimp simp: story_defs)
  ultimately show ?thesis ..
qed

text \<open>
  C10. After a successful payment request the debt with that id exists and its stored
  \<^verbatim>\<open>paid_amount\<close> is the sum of the amounts of all its payment rows, whatever was
  stored before.
\<close>

theorem record_payment_resyncs_paid_amount:
  assumes "record_payment db now i body = (db', Inr resp)"
  shows "(\<exists>d \<in> set (debts db'). d_id d = i) \<and>
         (\<forall>d \<in> set (debts db'). d_id d = i \<longrightarrow>
            d_paid_amount d =
              Some (sum_list (map p_amount (filter (\<lambda>p. p_debt_id p = i) (debt_payments db')))))"
proof -
  from assms record_payment_rejected [of body db now i]
  have date: "truthy_str (b_payment_date body)" and amt: "truthy_num (b_amount body)"
    by auto
  with assms record_payment_unknown [of body i db now]
  obtain debt where debt: "find (\<lambda>d. d_id d = i) (debts db) = Some debt"
    by (cases "find (\<lambda>d. d_id d = i) (debts db)") auto
  then have ex: "\<exists>d \<in> set (debts db). d_id d = i"
    using find_debt_iff [of i "debts db"] by blast
  define paid where "paid = sum_payments db i + the (b_amount body)"
  define row where "row = \<lparr> p_id = next_rowid (seq_debt_payments db) (map p_id (debt_payments db)),
                  p_debt_id = i, p_payment_date = the (b_payment_date body),
                  p_amount = the (b_amount body),
                  p_payment_method = js_or_null (b_payment_method body),
                  p_notes = js_or_null (b_notes body), p_created_at = now \<rparr>"
  from record_payment_accepted [OF date amt debt, of now] assms
  have db': "debt_payments db' = debt_payments db @ [row]"
    and debts': "debts db' =
       map (\<lambda>d. if d_id d = i
                 then d\<lparr> d_status := (if d_amount debt \<le> paid then ''paid'' else d_status d),
                         d_paid_amount := Some paid, d_updated_at := now \<rparr>
                 else d) (debts db)"
    by (auto simp: Let_def paid_def row_def)
  from debts' have "map d_id (debts db') = map d_id (debts db)"
    by simp
  then have "d_id ` set (debts db') = d_id ` set (debts db)"
    by (metis list.set_map)
  with ex have "\<exists>d \<in> set (debts db'). d_id d = i"
    by (metis (mono_tags, lifting) image_iff)
  moreover have "sum_list (map p_amount (filter (\<lambda>p. p_debt_id p = i) (debt_payments db'))) = paid"
    by (simp add: db' paid_def sum_payments_def row_def)
  moreover have "\<forall>d \<in> set (debts db'). d_id d = i \<longrightarrow> d_paid_amount d = Some paid"
  proof (intro ballI impI)
    fix d
    assume "d \<in> set (debts db')" and "d_id d = i"
    then show "d_paid_amount d = Some paid"
      unfolding debts' by (rule paid_amount_after_update)
  qed
  ultimately show ?thesis
    by simp
qed

text \<open>A stored value of 1 against 5000 paid is replaced by the full sum, 15000.\<close>

theorem record_payment_resyncs_paid_amount_witness:
  "record_payment drifted_db ''2024-01-20 09:00:00'' 1 final_instalment =
     (resynced_db, Inr (Some second_payment)) \<and>
   map d_paid_amount (debts drifted_db) = [Some 1] \<and>
   map d_paid_amount (debts resynced_db) = [Some 15000] \<and>
   sum_list (map p_amount (debt_payments resynced_db)) = 15000"
proof -
  have h: "record_payment drifted_db ''2024-01-20 09:00:00'' 1 final_instalment =
     (resynced_db, Inr (Some second_payment))"
    by (simp add: record_payment_def js_defs sql_defs story_defs Let_def)
  from record_payment_resyncs_paid_amount [OF h] h show ?thesis
    by (simp add: story_defs)
qed

text \<open>
  C3, as the claim states it: a payment of amount zero on an existing debt would be
  accepted. The handler answers 400 and writes nothing.
\<close>

theorem zero_amount_rejected:
  "map d_id (debts sold_db) = [1] \<and>
   b_payment_date zero_instalment = Some ''2024-01-11'' \<and>
   b_amount zero_instalment = Some 0 \<and>
   record_payment sold_db ''2024-01-11 09:00:00'' 1 zero_instalment = (sold_db, Inl BadRequest) \<and>
   http_status BadRequest = 400"
  by (simp add: record_payment_def js_defs story_defs)

text \<open>
  C3, amended. The answer is 400 exactly when the payment date is missing or empty or
  the amount is missing or the number zero; it is 404 exactly when validation passed
  and no debt has the id; an error leaves the database as it was and is one of these
  two; every other request, in particular one with a negative amount, inserts the
  payment with the amount as given.
\<close>

theorem record_payment_validation:
  "(snd (record_payment db now i body) = Inl BadRequest \<longleftrightarrow>
      b_payment_date body = None \<or> b_payment_date body = Some [] \<or>
      b_amount body = None \<or> b_amount body = Some 0) \<and>
   (snd (record_payment db now i body) = Inl NotFound \<longleftrightarrow>
      \<not> (b_payment_date body = None \<or> b_payment_date body = Some [] \<or>
         b_amount body = None \<or> b_amount body = Some 0) \<and>
      \<not> (\<exists>d \<in> set (debts db). d_id d = i)) \<and>
   (\<forall>e. snd (record_payment db now i body) = Inl e \<longrightarrow>
      fst (record_payment db now i body) = db \<and> (e = BadRequest \<or> e = NotFound)) \<and>
   (\<forall>a. b_amount body = Some a \<and> a \<noteq> 0 \<and>
        b_payment_date body \<noteq> None \<and> b_payment_date body \<noteq> Some [] \<and>
        (\<exists>d \<in> set (debts db). d_id d = i) \<longrightarrow>
        (\<exists>row. snd (record_payment db now i body) = Inr (Some row) \<and> p_amount row = a \<and>
               debt_payments (fst (record_payment db now i body)) = debt_payments db @ [row]))"
proof -
  define bad where "bad \<longleftrightarrow> b_payment_date body = None \<or> b_payment_date body = Some [] \<or>
      b_amount body = None \<or> b_amount body = Some 0"
  define known where "known \<longleftrightarrow> (\<exists>d \<in> set (debts db). d_id d = i)"
  define res where "res = record_payment db now i body"
  have bad: "bad \<longleftrightarrow> \<not> truthy_str (b_payment_date body) \<or> \<not> truthy_num (b_amount body)"
    by (simp add: bad_def falsy_str_iff falsy_num_iff disj_ac)
  have known: "known \<longleftrightarrow> find (\<lambda>d. d_id d = i) (debts db) \<noteq> None"
    using find_debt_iff [of i "debts db"] by (auto simp: known_def)
  have goal: "(snd res = Inl BadRequest \<longleftrightarrow> bad) \<and>
     (snd res = Inl NotFound \<longleftrightarrow> \<not> bad \<and> \<not> known) \<and>
     (\<forall>e. snd res = Inl e \<longrightarrow> fst res = db \<and> (e = BadRequest \<or> e = NotFound)) \<and>
     (\<forall>a. b_amount body = Some a \<and> \<not> bad \<and> known \<longrightarrow>
        (\<exists>row. snd res = Inr (Some row) \<and> p_amount row = a \<and>
               debt_payments (fst res) = debt_payments db @ [row]))"
  proof (cases bad)
    case True
    with bad have "res = (db, Inl BadRequest)"
      unfolding res_def by (intro record_payment_rejected) simp
    with True show ?thesis by simp
  next
    case False
    with bad have t: "truthy_str (b_payment_date body)" "truthy_num (b_amount body)"
      by simp_all
    show ?thesis
    proof (cases "find (\<lambda>d. d_id d = i) (debts db)")
      case None
      with t have "res = (db, Inl NotFound)"
        unfolding res_def by (intro record_payment_unknown)
      with False None known show ?thesis by simp
    next
      case (Some debt)
      define row where "row = \<lparr> p_id = next_rowid (seq_debt_payments db) (map p_id (debt_payments db)),
                  p_debt_id = i, p_payment_date = the (b_payment_date body),
                  p_amount = the (b_amount body),
                  p_payment_method = js_or_null (b_payment_method body),
                  p_notes = js_or_null (b_notes body), p_created_at = now \<rparr>"
      have r: "snd res = Inr (Some row)"
        and dp: "debt_payments (fst res) = debt_payments db @ [row]"
        using record_payment_accepted [OF t Some, of now]
        by (simp_all add: Let_def row_def res_def)
      have pa: "p_amount row = the (b_amount body)"
        by (simp add: row_def)
      from r dp pa False Some known show ?thesis
        by simp
    qed
  qed
  have c4: "b_amount body = Some a \<and> \<not> bad" if "b_amount body = Some a \<and> a \<noteq> 0 \<and>
        b_payment_date body \<noteq> None \<and> b_payment_date body \<noteq> Some []" for a
    using that by (auto simp: bad_def)
  from goal have g1: "snd res = Inl BadRequest \<longleftrightarrow> bad"
    and g2: "snd res = Inl NotFound \<longleftrightarrow> \<not> bad \<and> \<not> known"
    and g3: "\<forall>e. snd res = Inl e \<longrightarrow> fst res = db \<and> (e = BadRequest \<or> e = NotFound)"
    and g4: "\<forall>a. b_amount body = Some a \<and> \<not> bad \<and> known \<longrightarrow>
        (\<exists>row. snd res = Inr (Some row) \<and> p_amount row = a \<and>
               debt_payments (fst res) = debt_payments db @ [row])"
    by blast+
  from g4 c4 have g4': "\<forall>a. b_amount body = Some a \<and> a \<noteq> 0 \<and>
        b_payment_date body \<noteq> None \<and> b_payment_date body \<noteq> Some [] \<and> known \<longrightarrow>
        (\<exists>row. snd res = Inr (Some row) \<and> p_amount row = a \<and>
               debt_payments (fst res) = debt_payments db @ [row])"
    by blast
  from g1 g2 g3 g4' show ?thesis
    unfolding bad_def known_def res_def by (intro conjI)
qed

text \<open>A refund of 2000 is recorded; an unknown debt gives 404; an amount of zero gives 400.\<close>

theorem record_payment_validation_witness:
  "b_amount refund = Some (- 2000) \<and>
   (\<exists>row. snd (record_payment sold_db ''2024-01-11 09:00:00'' 1 refund) = Inr (Some row) \<and>
      p_amount row = - 2000 \<and>
      debt_payments (fst (record_payment sold_db ''2024-01-11 09:00:00'' 1 refund)) = [row]) \<and>
   snd (record_payment sold_db ''2024-01-11 09:00:00'' 7 refund) = Inl NotFound \<and>
   snd (record_payment sold_db ''2024-01-11 09:00:00'' 1 zero_instalment) = Inl BadRequest"
proof -
  have a: "b_amount refund = Some (- 2000) \<and> (- 2000 :: int) \<noteq> 0 \<and>
        b_payment_date refund \<noteq> None \<and> b_payment_date refund \<noteq> Some [] \<and>
        (\<exists>d \<in> set (debts sold_db). d_id d = 1)"
    by (simp add: story_defs)
  have b: "\<not> (b_payment_date refund = None \<or> b_payment_date refund = Some [] \<or>
         b_amount refund = None \<or> b_amount refund = Some 0) \<and>
      \<not> (\<exists>d \<in> set (debts sold_db). d_id d = 7)"
    by (simp add: story_defs)
  have c: "b_payment_date zero_instalment = None \<or> b_payment_date zero_instalment = Some [] \<or>
      b_amount zero_instalment = None \<or> b_amount zero_instalment = Some 0"
    by (simp add: story_defs)
  note v = record_payment_validation [where now = "''2024-01-11 09:00:00''" and db = sold_db]
  from a v [of 1 refund] have
    "\<exists>row. snd (record_payment sold_db ''2024-01-11 09:00:00'' 1 refund) = Inr (Some row) \<and>
      p_amount row = - 2000 \<and>
      debt_payments (fst (record_payment sold_db ''2024-01-11 09:00:00'' 1 refund)) =
        debt_payments sold_db @ [row]"
    by blast
  then have "\<exists>row. snd (record_payment sold_db ''2024-01-11 09:00:00'' 1 refund) = Inr (Some row) \<and>
      p_amount row = - 2000 \<and>
      debt_payments (fst (record_payment sold_db ''2024-01-11 09:00:00'' 1 refund)) = [row]"
    by (simp add: story_defs)
  moreover from b v [of 7 refund]
  have "snd (record_payment sold_db ''2024-01-11 09:00:00'' 7 refund) = Inl NotFound"
    by blast
  moreover from c v [of 1 zero_instalment]
  have "snd (record_payment sold_db ''2024-01-11 09:00:00'' 1 zero_instalment) = Inl BadRequest"
    by blast
  ultimately show ?thesis using a by blast
qed


subsection \<open>One receivable and its payments\<close>

lemma foldl_add_amounts: "foldl (\<lambda>sum p. sum + f p) (a :: int) xs = a + sum_list (map f xs)"
  by (induction xs arbitrary: a) simp_all

lemma sum_list_mset_cong:
  assumes "mset xs = mset ys"
  shows "sum_list (map f xs) = sum_list (map (f :: 'a \<Rightarrow> int) ys)"
proof -
  have "sum_list (map f xs) = sum_mset (image_mset f (mset xs))"
    by (metis mset_map sum_mset_sum_list)
  also have "\<dots> = sum_mset (image_mset f (mset ys))"
    by (simp add: assms)
  also have "\<dots> = sum_list (map f ys)"
    by (metis mset_map sum_mset_sum_list)
  finally show ?thesis .
qed

lemma select_payments_sorted:
  "sorted_wrt (\<lambda>a b. p_payment_date b \<le> p_payment_date a) (select_payments db i)"
  by (simp add: select_payments_def sorted_order_by_desc)

lemma select_payments_mset:
  "mset (select_payments db i) = mset (filter (\<lambda>p. p_debt_id p = i) (debt_payments db))"
  by (simp add: select_payments_def mset_order_by_desc)

lemma select_payments_total:
  "foldl (\<lambda>sum p. sum + p_amount p) 0 (select_payments db i) =
     sum_list (map p_amount (filter (\<lambda>p. p_debt_id p = i) (debt_payments db)))"
  using sum_list_mset_cong [OF select_payments_mset, of p_amount db i]
  by (simp add: foldl_add_amounts)

lemma get_debt_found:
  assumes "find (\<lambda>d. d_id d = i) (debts db) = Some d"
  shows "get_debt db i =
     Inr \<lparr> dd_debt = d\<lparr> d_paid_amount :=
               Some (sum_list (map p_amount (filter (\<lambda>p. p_debt_id p = i) (debt_payments db)))) \<rparr>,
           dd_customer_name = map_option c_name (join_customer db (Some (d_customer_id d))),
           dd_customer_phone = Option.bind (join_customer db (Some (d_customer_id d))) c_phone,
           dd_transaction_date = map_option t_date (join_transaction db (d_transaction_id d)),
           dd_payments = select_payments db i,
           dd_remaining_amount =
             d_amount d -
             sum_list (map p_amount (filter (\<lambda>p. p_debt_id p = i) (debt_payments db))) \<rparr>"
  using assms by (simp add: get_debt_def Let_def select_payments_total)

text \<open>
  C6. Fetching a receivable answers 404 when no debt has the id and succeeds when one
  has. The answer carries the debt's columns with \<^verbatim>\<open>paid_amount\<close> replaced by the sum
  of its payments, the remaining amount (amount minus that sum) and the payments of
  the debt ordered by payment date, newest first. The status is the stored column: it
  is not recomputed.
\<close>

theorem get_debt_result:
  "(\<not> (\<exists>d \<in> set (debts db). d_id d = i) \<longrightarrow> get_debt db i = Inl NotFound) \<and>
   ((\<exists>d \<in> set (debts db). d_id d = i) \<longrightarrow> (\<exists>r. get_debt db i = Inr r)) \<and>
   (\<forall>d. find (\<lambda>d. d_id d = i) (debts db) = Some d \<longrightarrow>
      (\<exists>r. get_debt db i = Inr r \<and>
           dd_debt r = d\<lparr> d_paid_amount :=
             Some (sum_list (map p_amount (filter (\<lambda>p. p_debt_id p = i) (debt_payments db)))) \<rparr> \<and>
           d_status (dd_debt r) = d_status d \<and>
           dd_remaining_amount r =
             d_amount d -
             sum_list (map p_amount (filter (\<lambda>p. p_debt_id p = i) (debt_payments db))) \<and>
           sorted_wrt (\<lambda>a b. p_payment_date b \<le> p_payment_date a) (dd_payments r) \<and>
           mset (dd_payments r) = mset (filter (\<lambda>p. p_debt_id p = i) (debt_payments db))))"
proof (intro conjI allI impI)
  assume "\<not> (\<exists>d \<in> set (debts db). d_id d = i)"
  then have "find (\<lambda>d. d_id d = i) (debts db) = None"
    using find_debt_iff [of i "debts db"] by (cases "find (\<lambda>d. d_id d = i) (debts db)") auto
  then show "get_debt db i = Inl NotFound"
    by (simp add: get_debt_def)
next
  assume "\<exists>d \<in> set (debts db). d_id d = i"
  then obtain d where "find (\<lambda>d. d_id d = i) (debts db) = Some d"
    using find_debt_iff [of i "debts db"] by blast
  from get_debt_found [OF this] show "\<exists>r. get_debt db i = Inr r"
    by blast
next
  fix d
  assume "find (\<lambda>d. d_id d = i) (debts db) = Some d"
  from get_debt_found [OF this] show "\<exists>r. get_debt db i = Inr r \<and>
           dd_debt r = d\<lparr> d_paid_amount :=
             Some (sum_list (map p_amount (filter (\<lambda>p. p_debt_id p = i) (debt_payments db)))) \<rparr> \<and>
           d_status (dd_debt r) = d_status d \<and>
           dd_remaining_amount r =
             d_amount d -
             sum_list (map p_amount (filter (\<lambda>p. p_debt_id p = i) (debt_payments db))) \<and>
           sorted_wrt (\<lambda>a b. p_payment_date b \<le> p_payment_date a) (dd_payments r) \<and>
           mset (dd_payments r) = mset (filter (\<lambda>p. p_debt_id p = i) (debt_payments db))"
    by (simp add: select_payments_sorted select_payments_mset)
qed

text \<open>
  The overpaid debt is shown with its stored status \<^verbatim>\<open>'unpaid'\<close> next to a remaining
  amount of -2000 (the list shows the same debt as paid).
\<close>

theorem get_debt_result_witness:
  "(\<exists>r. get_debt overpaid_db 1 = Inr r \<and> d_status (dd_debt r) = ''unpaid'' \<and>
        d_paid_amount (dd_debt r) = Some 5000 \<and> dd_remaining_amount r = - 2000) \<and>
   (\<exists>r. get_debt resynced_db 1 = Inr r \<and> dd_payments r = [second_payment, first_payment]) \<and>
   get_debt overpaid_db 9 = Inl NotFound \<and> http_status NotFound = 404"
proof -
  have a: "find (\<lambda>d. d_id d = 1) (debts overpaid_db) = Some (hd (debts overpaid_db))"
    and b: "\<not> (\<exists>d \<in> set (debts overpaid_db). d_id d = 9)"
    by (simp_all add: story_defs)
  note g = get_debt_result [of overpaid_db]
  from a g [of 1] have
    "\<exists>r. get_debt overpaid_db 1 = Inr r \<and> d_status (dd_debt r) = ''unpaid'' \<and>
        d_paid_amount (dd_debt r) = Some 5000 \<and> dd_remaining_amount r = - 2000"
    by (clarsimp simp: story_defs)
  moreover have "\<exists>r. get_debt resynced_db 1 = Inr r \<and> dd_payments r = [second_payment, first_payment]"
    by (simp add: get_debt_def sql_defs story_defs Let_def)
  moreover from b g [of 9] have "get_debt overpaid_db 9 = Inl NotFound"
    by blast
  ultimately show ?thesis by simp
qed

text \<open>
  C8, as the claim states it: an id without a debt would give the empty sequence.
  After the sale is deleted no debt is left, and the payments of debt 1 are still
  listed.
\<close>

theorem orphaned_payments_listed:
  "debts orphaned_db = [] \<and> list_payments orphaned_db 1 = [first_payment]"
  by (simp add: list_payments_def sql_defs story_defs)

text \<open>
  C8, amended. Listing payments never fails and checks no debt: the answer holds
  exactly the payment rows whose \<^verbatim>\<open>debt_id\<close> is the id, newest first, and is empty
  exactly when no payment row refers to the id.
\<close>

theorem list_payments_result:
  "sorted_wrt (\<lambda>a b. p_payment_date b \<le> p_payment_date a) (list_payments db i) \<and>
   mset (list_payments db i) = mset (filter (\<lambda>p. p_debt_id p = i) (debt_payments db)) \<and>
   (list_payments db i = [] \<longleftrightarrow> \<not> (\<exists>p \<in> set (debt_payments db). p_debt_id p = i))"
proof -
  have "list_payments db i = [] \<longleftrightarrow> mset (list_payments db i) = {#}"
    by simp
  also have "\<dots> \<longleftrightarrow> filter (\<lambda>p. p_debt_id p = i) (debt_payments db) = []"
    by (simp only: list_payments_def select_payments_mset mset_zero_iff)
  also have "\<dots> \<longleftrightarrow> \<not> (\<exists>p \<in> set (debt_payments db). p_debt_id p = i)"
    by (auto simp: filter_empty_conv)
  finally have "list_payments db i = [] \<longleftrightarrow>
      \<not> (\<exists>p \<in> set (debt_payments db). p_debt_id p = i)" .
  with select_payments_sorted [of db i] select_payments_mset [of db i] show ?thesis
    unfolding list_payments_def by blast
qed

theorem list_payments_result_witness:
  "list_payments resynced_db 1 = [second_payment, first_payment] \<and>
   p_payment_date first_payment \<le> p_payment_date second_payment \<and>
   list_payments resynced_db 5 = [] \<and> list_payments orphaned_db 1 \<noteq> []"
  using list_payments_result [of resynced_db 1] list_payments_result [of resynced_db 5]
    list_payments_result [of orphaned_db 1]
  by (simp add: list_payments_def sql_defs story_defs)

subsection \<open>Deleting a sale\<close>

text \<open>
  C7. A caller whose role is neither admin nor owner gets 403 and the database stays
  as it was. For an admin or owner the transaction row and every debt row referring
  to it are removed; the payment rows (and the other tables) are untouched.
\<close>

theorem delete_transaction_effect:
  "(u_role usr \<noteq> ''admin'' \<and> u_role usr \<noteq> ''owner'' \<longrightarrow>
      delete_transaction db usr i = (db, Inl Forbidden)) \<and>
   (u_role usr = ''admin'' \<or> u_role usr = ''owner'' \<longrightarrow>
      (\<exists>db'. delete_transaction db usr i = (db', Inr ''Transaction deleted successfully'') \<and>
         transactions db' = filter (\<lambda>t. t_id t \<noteq> i) (transactions db) \<and>
         debts db' = filter (\<lambda>d. d_transaction_id d \<noteq> Some i) (debts db) \<and>
         debt_payments db' = debt_payments db \<and>
         customers db' = customers db \<and> ponds db' = ponds db))"
  by (auto simp: delete_transaction_def Let_def)

text \<open>The clerk may not delete the sale; the owner may, and the instalment stays behind.\<close>

theorem delete_transaction_effect_witness:
  "delete_transaction part_paid_db clerk 1 = (part_paid_db, Inl Forbidden) \<and>
   http_status Forbidden = 403 \<and>
   debt_payments part_paid_db = [first_payment] \<and> p_debt_id first_payment = 1 \<and>
   (\<exists>db'. delete_transaction part_paid_db boss 1 =
            (db', Inr ''Transaction deleted successfully'') \<and>
      transactions db' = [] \<and> debts db' = [] \<and> debt_payments db' = [first_payment])"
proof -
  have a: "u_role clerk \<noteq> ''admin'' \<and> u_role clerk \<noteq> ''owner''"
    and b: "u_role boss = ''admin'' \<or> u_role boss = ''owner''"
    by (simp_all add: story_defs)
  from a delete_transaction_effect [of clerk part_paid_db 1]
  have "delete_transaction part_paid_db clerk 1 = (part_paid_db, Inl Forbidden)"
    by blast
  moreover from b delete_transaction_effect [of boss part_paid_db 1]
  have "\<exists>db'. delete_transaction part_paid_db boss 1 =
            (db', Inr ''Transaction deleted successfully'') \<and>
      transactions db' = [] \<and> debts db' = [] \<and> debt_payments db' = [first_payment]"
    by (clarsimp simp: story_defs)
  ultimately show ?thesis
    by (simp add: story_defs)
qed

subsection \<open>The status filter of the list\<close>

lemma list_debts_filtered:
  assumes "s \<noteq> []" and "r \<in> set (list_debts db \<lparr> q_status = Some s, q_customerId = c \<rparr>)"
  shows "\<exists>d \<in> set (debts db).
           d_id d = d_id (li_debt r) \<and> d_status d = s \<and>
           d_status (li_debt r) =
             (if d_amount d -
                 sum_list (map p_amount (filter (\<lambda>p. p_debt_id p = d_id d) (debt_payments db))) \<le> 0
              then ''paid'' else ''unpaid'')"
proof -
  from assms(2) obtain d where d: "d \<in> set (select_debts db \<lparr> q_status = Some s, q_customerId = c \<rparr>)"
    and r: "r = debt_with_remaining db d"
    by (auto simp: list_debts_def)
  from d assms(1) have "d \<in> set (debts db)" "d_status d = s"
    by (simp_all add: set_select_debts debts_where_def truthy_str_def)
  moreover from r have "d_id d = d_id (li_debt r)"
    by (simp add: debt_with_remaining_def Let_def)
  moreover from r have "d_status (li_debt r) =
             (if d_amount d -
                 sum_list (map p_amount (filter (\<lambda>p. p_debt_id p = d_id d) (debt_payments db))) \<le> 0
              then ''paid'' else ''unpaid'')"
    by (simp add: debt_with_remaining_def Let_def js_or_num_zero sum_payments_def)
  ultimately show ?thesis
    by blast
qed

lemma unpaid_filter_shows_paid:
  "\<exists>r \<in> set (list_debts overpaid_db \<lparr> q_status = Some ''unpaid'', q_customerId = None \<rparr>).
     d_status (li_debt r) = ''paid''"
  by (simp add: list_debts_def select_debts_def debts_where_def debt_with_remaining_def
      js_defs sql_defs story_defs Let_def)

lemma paid_filter_shows_unpaid:
  "\<exists>r \<in> set (list_debts settled_db \<lparr> q_status = Some ''paid'', q_customerId = None \<rparr>).
     d_status (li_debt r) = ''unpaid''"
  by (simp add: list_debts_def select_debts_def debts_where_def debt_with_remaining_def
      js_defs sql_defs story_defs Let_def)

text \<open>
  C9. With a status filter, every listed row comes from a debt whose stored status is
  the filter value, while the row's status is recomputed from the payments. So there
  is a state where the filter \<^verbatim>\<open>'unpaid'\<close> lists a row shown as paid, and one where the
  filter \<^verbatim>\<open>'paid'\<close> lists a row shown as unpaid.
\<close>

theorem status_filter_reads_stored_column:
  "(\<forall>db s c r. s \<noteq> [] \<and> r \<in> set (list_debts db \<lparr> q_status = Some s, q_customerId = c \<rparr>) \<longrightarrow>
      (\<exists>d \<in> set (debts db).
           d_id d = d_id (li_debt r) \<and> d_status d = s \<and>
           d_status (li_debt r) =
             (if d_amount d -
                 sum_list (map p_amount (filter (\<lambda>p. p_debt_id p = d_id d) (debt_payments db))) \<le> 0
              then ''paid'' else ''unpaid''))) \<and>
   (\<exists>db. \<exists>r \<in> set (list_debts db \<lparr> q_status = Some ''unpaid'', q_customerId = None \<rparr>).
      d_status (li_debt r) = ''paid'') \<and>
   (\<exists>db. \<exists>r \<in> set (list_debts db \<lparr> q_status = Some ''paid'', q_customerId = None \<rparr>).
      d_status (li_debt r) = ''unpaid'')"
  using list_debts_filtered unpaid_filter_shows_paid paid_filter_shows_unpaid
  by blast

theorem status_filter_reads_stored_column_witness:
  "(\<exists>r \<in> set (list_debts overpaid_db unpaid_only).
      d_status (li_debt r) = ''paid'' \<and>
      (\<exists>d \<in> set (debts overpaid_db). d_id d = d_id (li_debt r) \<and> d_status d = ''unpaid'')) \<and>
   (\<exists>r \<in> set (list_debts settled_db paid_only).
      d_status (li_debt r) = ''unpaid'' \<and>
      (\<exists>d \<in> set (debts settled_db). d_id d = d_id (li_debt r) \<and> d_status d = ''paid''))"
proof -
  note g = status_filter_reads_stored_column [THEN conjunct1, rule_format, OF conjI]
  have a: "debt_with_remaining overpaid_db (hd (debts overpaid_db))
             \<in> set (list_debts overpaid_db \<lparr> q_status = Some ''unpaid'', q_customerId = None \<rparr>)"
    and b: "debt_with_remaining settled_db (hd (debts settled_db))
             \<in> set (list_debts settled_db \<lparr> q_status = Some ''paid'', q_customerId = None \<rparr>)"
    by (simp_all add: list_debts_def select_debts_def debts_where_def js_defs sql_defs story_defs)
  have "''unpaid'' \<noteq> []" "''paid'' \<noteq> []"
    by simp_all
  from g [OF this(1) a] g [OF this(2) b] a b show ?thesis
    by (simp add: list_debts_def select_debts_def debts_where_def
        debt_with_remaining_def js_defs sql_defs story_defs Let_def)
qed

subsection \<open>Creating a sale\<close>

lemma new_transaction_found:
  "find (\<lambda>t. t_id t = next_rowid s (map t_id ts)) (ts @ [row\<lparr> t_id := next_rowid s (map t_id ts) \<rparr>])
     = Some (row\<lparr> t_id := next_rowid s (map t_id ts) \<rparr>)"
proof (rule find_snoc_fresh)
  show "\<forall>x \<in> set ts. \<not> t_id x = next_rowid s (map t_id ts)"
    using next_rowid_fresh [of s "map t_id ts"] by (metis image_eqI list.set_map)
  show "t_id (row\<lparr> t_id := next_rowid s (map t_id ts) \<rparr>) = next_rowid s (map t_id ts)"
    by simp
qed

lemma insert_debt_fields:
  "transactions (insert_debt now tid cid amt db) = transactions db"
  "customers (insert_debt now tid cid amt db) = customers db"
  "ponds (insert_debt now tid cid amt db) = ponds db"
  "debt_payments (insert_debt now tid cid amt db) = debt_payments db"
  "debts (insert_debt now tid cid amt db) =
     debts db @ [\<lparr> d_id = next_rowid (seq_debts db) (map d_id (debts db)),
                    d_transaction_id = Some tid, d_customer_id = cid, d_amount = amt,
                    d_paid_amount = Some 0, d_status = ''unpaid'', d_due_date = None,
                    d_notes = None, d_created_at = now, d_updated_at = now \<rparr>]"
  by (simp_all add: insert_debt_def Let_def)

lemma join_after_insert:
  "join_pond (insert_debt now tid cid amt db) k = join_pond db k"
  "join_customer (insert_debt now tid cid amt db) k = join_customer db k"
  "join_pond (db\<lparr> transactions := ts, seq_transactions := n \<rparr>) k = join_pond db k"
  "join_customer (db\<lparr> transactions := ts, seq_transactions := n \<rparr>) k = join_customer db k"
  by (simp_all add: join_pond_def join_customer_def insert_debt_fields split: option.split)

lemma create_transaction_accepted:
  assumes "truthy_str (tb_date body)" and "truthy_num (tb_customer_id body)"
    and "truthy_num (body_weight body)" and "truthy_num (tb_price_per_kg body)"
  shows
    "let row = \<lparr> t_id = next_rowid (seq_transactions db) (map t_id (transactions db)),
                  t_date = the (tb_date body),
                  t_pond_id = js_or_null_num (tb_pond_id body),
                  t_customer_id = tb_customer_id body,
                  t_weight_kg = the (body_weight body),
                  t_price_per_kg = the (tb_price_per_kg body),
                  t_total =
                    Math_round (js_times (the (body_weight body))
                                  (of_int (the (tb_price_per_kg body)))),
                  t_payment_method = js_or_null (tb_payment_method body),
                  t_payment_status = js_or_str (tb_payment_status body) ''paid'',
                  t_notes = js_or_null (tb_notes body),
                  t_created_by = Some (u_id usr),
                  t_created_at = now \<rparr>
     in \<exists>db'. create_transaction db now usr body =
           (db', Inr (Some \<lparr> tv_transaction = row,
                 tv_pond_name =
                   map_option po_name (join_pond db (js_or_null_num (tb_pond_id body))),
                 tv_customer_name =
                   map_option c_name (join_customer db (tb_customer_id body)) \<rparr>)) \<and>
           transactions db' = transactions db @ [row] \<and>
           debt_payments db' = debt_payments db \<and>
           debts db' =
             (if tb_payment_status body = Some ''unpaid''
              then debts db @
                   [\<lparr> d_id = next_rowid (seq_debts db) (map d_id (debts db)),
                      d_transaction_id = Some (t_id row),
                      d_customer_id = the (tb_customer_id body),
                      d_amount = t_total row,
                      d_paid_amount = Some 0, d_status = ''unpaid'', d_due_date = None,
                      d_notes = None, d_created_at = now, d_updated_at = now \<rparr>]
              else debts db)"
proof (cases "tb_payment_status body = Some ''unpaid''")
  case True
  with assms
    new_transaction_found [of "seq_transactions db" "transactions db"
      "\<lparr> t_id = 0, t_date = the (tb_date body),
                  t_pond_id = js_or_null_num (tb_pond_id body),
                  t_customer_id = tb_customer_id body,
                  t_weight_kg = the (body_weight body),
                  t_price_per_kg = the (tb_price_per_kg body),
                  t_total =
                    Math_round (js_times (the (body_weight body))
                                  (of_int (the (tb_price_per_kg body)))),
                  t_payment_method = js_or_null (tb_payment_method body),
                  t_payment_status = js_or_str (tb_payment_status body) ''paid'',
                  t_notes = js_or_null (tb_notes body),
                  t_created_by = Some (u_id usr),
                  t_created_at = now \<rparr>"]
  show ?thesis
    by (simp add: create_transaction_def insert_transaction_def insert_debt_fields
        select_transaction_view_def join_after_insert Let_def)
next
  case False
  with assms
    new_transaction_found [of "seq_transactions db" "transactions db"
      "\<lparr> t_id = 0, t_date = the (tb_date body),
                  t_pond_id = js_or_null_num (tb_pond_id body),
                  t_customer_id = tb_customer_id body,
                  t_weight_kg = the (body_weight body),
                  t_price_per_kg = the (tb_price_per_kg body),
                  t_total =
                    Math_round (js_times (the (body_weight body))
                                  (of_int (the (tb_price_per_kg body)))),
                  t_payment_method = js_or_null (tb_payment_method body),
                  t_payment_status = js_or_str (tb_payment_status body) ''paid'',
                  t_notes = js_or_null (tb_notes body),
                  t_created_by = Some (u_id usr),
                  t_created_at = now \<rparr>"]
  show ?thesis
    by (simp add: create_transaction_def insert_transaction_def
        select_transaction_view_def join_after_insert Let_def)
qed

text \<open>
  C4. A create request with date, customer, weight \<open>w\<close> and price \<open>p\<close> (none of them
  falsy) appends one transaction whose total is \<^verbatim>\<open>Math.round\<close> of the binary64 product
  of the stored weight and the price (15000 for 10 kg at 1500) and answers with it. With payment status \<^verbatim>\<open>'unpaid'\<close> exactly one debt row is
  appended, for that transaction and customer, with the total as amount and status
  \<^verbatim>\<open>'unpaid'\<close>; with any other status no debt row is written, and a missing status is
  stored as \<^verbatim>\<open>'paid'\<close>.
\<close>

theorem create_transaction_effect:
  assumes "truthy_str (tb_date body)"
    and "tb_customer_id body = Some c" "c \<noteq> 0"
    and "tb_weight_kg body = Some w" "w \<noteq> 0"
    and "tb_price_per_kg body = Some p" "p \<noteq> 0"
  shows "\<exists>t v db'.
           create_transaction db now usr body = (db', Inr (Some v)) \<and> tv_transaction v = t \<and>
           transactions db' = transactions db @ [t] \<and>
           t_weight_kg t = binary64 w \<and> t_price_per_kg t = p \<and>
           t_total t = \<lfloor>binary64 (t_weight_kg t * of_int (t_price_per_kg t)) + 1 / 2\<rfloor> \<and>
           (w = 10 \<and> p = 1500 \<longrightarrow> t_total t = 15000) \<and>
           (tb_payment_status body = Some ''unpaid'' \<longrightarrow>
              t_payment_status t = ''unpaid'' \<and>
              (\<exists>d. debts db' = debts db @ [d] \<and> d_transaction_id d = Some (t_id t) \<and>
                   d_customer_id d = c \<and> d_amount d = t_total t \<and> d_status d = ''unpaid'')) \<and>
           (tb_payment_status body \<noteq> Some ''unpaid'' \<longrightarrow> debts db' = debts db) \<and>
           (tb_payment_status body = None \<longrightarrow> t_payment_status t = ''paid'')"
proof -
  from assms have t: "truthy_num (tb_customer_id body)" "truthy_num (body_weight body)"
    "truthy_num (tb_price_per_kg body)"
    by (simp_all add: truthy_body_weight) (simp_all add: truthy_num_def)
  from assms have bw: "body_weight body = Some (binary64 w)"
    by (simp add: body_weight_def)
  have r: "w = 10 \<and> p = 1500 \<longrightarrow> Math_round (js_times (binary64 w) (of_int p)) = 15000"
    using Math_round_of_int [of 15000] by (simp add: binary64_10 js_times_10_1500)
  have m: "Math_round (js_times (binary64 w) (of_int p)) =
             \<lfloor>binary64 (binary64 w * of_int p) + 1 / 2\<rfloor>"
    by (simp add: Math_round_def js_times_def)
  from create_transaction_accepted [OF assms(1) t, where db = db and now = now and usr = usr]
    assms bw r m
  show ?thesis
    by (auto simp: Let_def js_or_str_def)
qed

theorem create_transaction_effect_witness:
  "(\<exists>t v db'. create_transaction start_db ''2024-01-10 08:00:00'' clerk sale_body =
        (db', Inr (Some v)) \<and> tv_transaction v = t \<and>
      t_weight_kg t = 10 \<and> t_price_per_kg t = 1500 \<and> t_total t = 15000 \<and>
      t_payment_status t = ''unpaid'' \<and> debts db' = [sale_debt]) \<and>
   (\<exists>t v db'. create_transaction start_db ''2024-01-10 08:00:00'' clerk cash_body =
        (db', Inr (Some v)) \<and> tv_transaction v = t \<and>
      t_total t = 15000 \<and> t_payment_status t = ''paid'' \<and> debts db' = []) \<and>
   (\<exists>t v db'. create_transaction start_db ''2024-01-10 08:00:00'' clerk light_body =
        (db', Inr (Some v)) \<and> tv_transaction v = t \<and>
      t_total t = 122 \<and> map d_amount (debts db') = [122])"
proof -
  have a: "truthy_str (tb_date sale_body)" "tb_customer_id sale_body = Some 1" "(1::nat) \<noteq> 0"
    "tb_weight_kg sale_body = Some 10" "(10::rat) \<noteq> 0"
    "tb_price_per_kg sale_body = Some 1500" "(1500::int) \<noteq> 0"
    by (simp_all add: js_defs story_defs)
  have b: "truthy_str (tb_date cash_body)" "tb_customer_id cash_body = Some 1" "(1::nat) \<noteq> 0"
    "tb_weight_kg cash_body = Some 10" "(10::rat) \<noteq> 0"
    "tb_price_per_kg cash_body = Some 1500" "(1500::int) \<noteq> 0"
    by (simp_all add: js_defs story_defs)
  have c: "truthy_str (tb_date light_body)" "tb_customer_id light_body = Some 1" "(1::nat) \<noteq> 0"
    "tb_weight_kg light_body = Some (35 / 100)" "(35 / 100 :: rat) \<noteq> 0"
    "tb_price_per_kg light_body = Some 350" "(350::int) \<noteq> 0"
    by (simp_all add: js_defs story_defs)
  from create_transaction_effect [OF a, of start_db "''2024-01-10 08:00:00''" clerk]
  have "\<exists>t v db'. create_transaction start_db ''2024-01-10 08:00:00'' clerk sale_body =
        (db', Inr (Some v)) \<and> tv_transaction v = t \<and>
      t_weight_kg t = 10 \<and> t_price_per_kg t = 1500 \<and> t_total t = 15000 \<and>
      t_payment_status t = ''unpaid'' \<and> debts db' = [sale_debt]"
    by (clarsimp simp: create_transaction_def js_defs sql_defs story_defs Let_def)
  moreover
  from create_transaction_effect [OF b, of start_db "''2024-01-10 08:00:00''" clerk]
  have "\<exists>t v db'. create_transaction start_db ''2024-01-10 08:00:00'' clerk cash_body =
        (db', Inr (Some v)) \<and> tv_transaction v = t \<and>
      t_total t = 15000 \<and> t_payment_status t = ''paid'' \<and> debts db' = []"
    by (clarsimp simp: create_transaction_def js_defs sql_defs story_defs Let_def)
  moreover
  from create_transaction_effect [OF c, of start_db "''2024-01-10 08:00:00''" clerk]
  have "\<exists>t v db'. create_transaction start_db ''2024-01-10 08:00:00'' clerk light_body =
        (db', Inr (Some v)) \<and> tv_transaction v = t \<and>
      t_total t = 122 \<and> map d_amount (debts db') = [122]"
    by (clarsimp simp: create_transaction_def js_defs sql_defs story_defs Let_def)
  ultimately show ?thesis
    by blast
qed

subsection \<open>Updating a sale\<close>

lemma update_transaction_row_debts:
  "update_transaction_row i body db = Some db1 \<Longrightarrow> debts db1 = debts db"
  by (auto simp: update_transaction_row_def split: if_splits)

lemma find_by_transaction:
  "(\<exists>d \<in> set ds. d_transaction_id d = Some i) \<Longrightarrow>
   \<exists>e. find (\<lambda>d. d_transaction_id d = Some i) ds = Some e"
  by (induction ds) auto

lemma update_total_Some:
  "update_total body = Some tot \<Longrightarrow>
   \<exists>w p. tb_weight_kg body = Some w \<and> tb_price_per_kg body = Some p \<and>
         tot = \<lfloor>binary64 (binary64 w * of_int p) + 1 / 2\<rfloor>"
  by (auto simp: update_total_def body_weight_def Math_round_def js_times_def
      split: option.splits)

lemma sync_debt_unpaid_existing:
  assumes "tb_payment_status body = Some ''unpaid''"
    and "\<exists>d \<in> set (debts db). d_transaction_id d = Some i"
    and "sync_debt now i body db = Some db'"
  shows "\<exists>w p. tb_weight_kg body = Some w \<and> tb_price_per_kg body = Some p \<and>
           debts db' = map (\<lambda>d. if d_transaction_id d = Some i
                                 then d\<lparr> d_amount := \<lfloor>binary64 (binary64 w * of_int p) + 1 / 2\<rfloor> \<rparr> else d) (debts db)"
proof -
  from find_by_transaction [OF assms(2)] obtain e
    where e: "find (\<lambda>d. d_transaction_id d = Some i) (debts db) = Some e" ..
  with assms(1,3) obtain tot where tot: "update_total body = Some tot"
    and db': "db' = update_debts_by_transaction i (\<lambda>d. d\<lparr> d_amount := tot \<rparr>) db"
    by (cases "update_total body") (simp_all add: sync_debt_def)
  from update_total_Some [OF tot] db' show ?thesis
    by (auto simp: update_debts_by_transaction_def)
qed

lemma sync_debt_settled:
  assumes "tb_payment_status body \<noteq> Some ''unpaid''" and "sync_debt now i body db = Some db'"
  shows "debts db' = map (\<lambda>d. if d_transaction_id d = Some i
                               then d\<lparr> d_status := ''paid'' \<rparr> else d) (debts db)"
  using assms by (auto simp: sync_debt_def update_debts_by_transaction_def)

lemma amount_update_frame:
  "map d_paid_amount (map (\<lambda>d. if P d then d\<lparr> d_amount := x \<rparr> else d) ds) = map d_paid_amount ds"
  "map d_status (map (\<lambda>d. if P d then d\<lparr> d_amount := x \<rparr> else d) ds) = map d_status ds"
  by (induction ds) simp_all

lemma status_update_frame:
  "map d_paid_amount (map (\<lambda>d. if P d then d\<lparr> d_status := x \<rparr> else d) ds) = map d_paid_amount ds"
  "map d_amount (map (\<lambda>d. if P d then d\<lparr> d_status := x \<rparr> else d) ds) = map d_amount ds"
  by (induction ds) simp_all

text \<open>
  C5. When an update succeeds: with the new payment status \<^verbatim>\<open>'unpaid'\<close> and a debt
  referring to the transaction, the debts referring to it get the recomputed total
  (\<^verbatim>\<open>Math.round\<close> of the binary64 product of weight and price) as amount and nothing
  else changes in the table (paid amounts and statuses stay); with
  any other payment status the debts referring to it get status \<^verbatim>\<open>'paid'\<close> and nothing
  else changes (paid amounts and amounts stay).
\<close>

theorem update_transaction_syncs_debt:
  assumes "update_transaction db now i body = (db', Inr v)"
  shows "(tb_payment_status body = Some ''unpaid'' \<and>
          (\<exists>d \<in> set (debts db). d_transaction_id d = Some i) \<longrightarrow>
            (\<exists>w p. tb_weight_kg body = Some w \<and> tb_price_per_kg body = Some p \<and>
               debts db' = map (\<lambda>d. if d_transaction_id d = Some i
                                     then d\<lparr> d_amount := \<lfloor>binary64 (binary64 w * of_int p) + 1 / 2\<rfloor> \<rparr>
                                     else d) (debts db)) \<and>
            map d_paid_amount (debts db') = map d_paid_amount (debts db) \<and>
            map d_status (debts db') = map d_status (debts db)) \<and>
         (tb_payment_status body \<noteq> Some ''unpaid'' \<longrightarrow>
            debts db' = map (\<lambda>d. if d_transaction_id d = Some i
                                  then d\<lparr> d_status := ''paid'' \<rparr> else d) (debts db) \<and>
            map d_paid_amount (debts db') = map d_paid_amount (debts db) \<and>
            map d_amount (debts db') = map d_amount (debts db))"
proof -
  from assms obtain db1 where db1: "update_transaction_row i body db = Some db1"
    and sync: "sync_debt now i body db1 = Some db'"
    by (auto simp: update_transaction_def split: option.splits)
  from db1 have same: "debts db1 = debts db"
    by (rule update_transaction_row_debts)
  have unpaid: "(\<exists>w p. tb_weight_kg body = Some w \<and> tb_price_per_kg body = Some p \<and>
               debts db' = map (\<lambda>d. if d_transaction_id d = Some i
                                     then d\<lparr> d_amount := \<lfloor>binary64 (binary64 w * of_int p) + 1 / 2\<rfloor> \<rparr>
                                     else d) (debts db)) \<and>
            map d_paid_amount (debts db') = map d_paid_amount (debts db) \<and>
            map d_status (debts db') = map d_status (debts db)"
    if "tb_payment_status body = Some ''unpaid''"
      and "\<exists>d \<in> set (debts db). d_transaction_id d = Some i"
  proof -
    from sync_debt_unpaid_existing [OF that(1) _ sync] that(2) same
    obtain w p where wp: "tb_weight_kg body = Some w" "tb_price_per_kg body = Some p"
      and d: "debts db' = map (\<lambda>d. if d_transaction_id d = Some i
                                     then d\<lparr> d_amount := \<lfloor>binary64 (binary64 w * of_int p) + 1 / 2\<rfloor> \<rparr>
                                     else d) (debts db)"
      by auto
    from d have "map d_paid_amount (debts db') = map d_paid_amount (debts db)"
      "map d_status (debts db') = map d_status (debts db)"
      by (simp_all only: amount_update_frame)
    with wp d show ?thesis by blast
  qed
  have settled: "debts db' = map (\<lambda>d. if d_transaction_id d = Some i
                                  then d\<lparr> d_status := ''paid'' \<rparr> else d) (debts db) \<and>
            map d_paid_amount (debts db') = map d_paid_amount (debts db) \<and>
            map d_amount (debts db') = map d_amount (debts db)"
    if "tb_payment_status body \<noteq> Some ''unpaid''"
  proof -
    from sync_debt_settled [OF that sync] same
    have d: "debts db' = map (\<lambda>d. if d_transaction_id d = Some i
                                  then d\<lparr> d_status := ''paid'' \<rparr> else d) (debts db)"
      by simp
    from d have "map d_paid_amount (debts db') = map d_paid_amount (debts db)"
      "map d_amount (debts db') = map d_amount (debts db)"
      by (simp_all only: status_update_frame)
    with d show ?thesis by blast
  qed
  from unpaid settled show ?thesis
    by blast
qed

text \<open>
  The debt of 15000 with 5000 paid becomes a debt of 3000, still unpaid with 5000
  paid; marked paid instead, it keeps amount 15000 and 5000 paid; after an update to
  0.35 kg at 350 it is a debt of 122.
\<close>

theorem update_transaction_syncs_debt_witness:
  "map d_amount (debts part_paid_db) = [15000] \<and>
   map d_status (debts part_paid_db) = [''unpaid''] \<and>
   map d_paid_amount (debts part_paid_db) = [Some 5000] \<and>
   fst (update_transaction part_paid_db ''2024-01-12 10:00:00'' 1 corrected_body) = overpaid_db \<and>
   map d_amount (debts overpaid_db) = [3000] \<and>
   map d_status (debts overpaid_db) = [''unpaid''] \<and>
   map d_paid_amount (debts overpaid_db) = [Some 5000] \<and>
   fst (update_transaction part_paid_db ''2024-01-12 10:00:00'' 1 settled_body) = settled_db \<and>
   map d_amount (debts settled_db) = [15000] \<and>
   map d_status (debts settled_db) = [''paid''] \<and>
   map d_paid_amount (debts settled_db) = [Some 5000] \<and>
   map d_amount
     (debts (fst (update_transaction part_paid_db ''2024-01-12 10:00:00'' 1 light_body))) = [122]"
proof -
  have "map d_amount
     (debts (fst (update_transaction part_paid_db ''2024-01-12 10:00:00'' 1 light_body))) = [122]"
    by (simp add: update_transaction_def js_defs sql_defs story_defs Let_def)
  with update_transaction_syncs_debt [OF story_correct_weight]
    update_transaction_syncs_debt [OF story_mark_paid]
    story_correct_weight story_mark_paid
  show ?thesis
    by (simp add: story_defs)
qed

end
